theory Spec2Isabelle
  imports Complex_Main
begin

section \<open>AirCut backend: gesture recognizer, detection pipeline, session handlers\<close>

text \<open>
  A shallow embedding of \<^verbatim>\<open>backend/main.py\<close>. Python floats are modelled as
  real numbers (exact arithmetic), Python ints as \<open>int\<close>; the two divisors of the frame
  skipping, whose remainders decide a branch, are the exact values of their doubles.
  Exceptions are values of
  the type \<open>py_error\<close>; a function that can raise returns \<open>py_error + 'a\<close>.
  Logging is not modelled. External collaborators (the detector, the image codec,
  the clock) are parameters.
\<close>

datatype py_error =
  IndexError | KeyError | TypeError | ValueError | ZeroDivisionError | ExternalError string

subsection \<open>The frame detection pipeline (class HighPerformanceCameraManager)\<close>

text \<open>A decoded image; only its shape is read by the pipeline.\<close>

record frame =
  fheight :: nat
  fwidth :: nat

text \<open>One prediction of the detector; \<open>pclass\<close> is the optional attribute \<open>class_name\<close>.\<close>

record prediction =
  px :: real
  py :: real
  pwidth :: real
  pheight :: real
  pconfidence :: real
  pclass :: "string option"

record detection =
  det_x :: real
  det_y :: real
  det_width :: real
  det_height :: real
  det_confidence :: real
  det_class :: string

text \<open>
  The fields of the manager. \<open>model_loaded\<close> stands for \<open>self.model is not None\<close>;
  \<open>detection_times\<close> is the deque of at most 30 latencies, oldest first.
\<close>

record camera_manager =
  model_loaded :: bool
  is_active :: bool
  tracking_enabled :: bool
  frame_count :: int
  detection_count :: int
  fps_start_time :: real
  detection_times :: "real list"
  current_detections :: "detection list"
  detection_frame_size :: nat

text \<open>
  The collaborators of one call of \<open>process_frame\<close>: \<open>resize\<close> is \<open>cv2.resize\<close>,
  \<open>infer\<close> is \<open>self.model.infer\<close>, which returns a list of results, each one given by
  its list of predictions (empty when the attribute is missing); both may raise. The three
  clock readings are the three calls of \<open>time.time()\<close>, in the order of the source.
\<close>

record pipeline_env =
  resize :: "frame \<Rightarrow> nat \<Rightarrow> py_error + frame"
  infer :: "frame \<Rightarrow> real \<Rightarrow> py_error + prediction list list"
  clock_start :: real
  clock_detected :: real
  clock_logged :: real

text \<open>\<open>max(predictions, key=lambda x: x.confidence)\<close>: the first prediction of maximal confidence.\<close>

fun max_confidence :: "prediction \<Rightarrow> prediction list \<Rightarrow> prediction" where
  "max_confidence best [] = best"
| "max_confidence best (p # ps) =
     (if pconfidence p > pconfidence best then max_confidence p ps else max_confidence best ps)"

text \<open>\<open>deque(maxlen=30).append\<close>: the oldest entry is dropped when the window is full.\<close>

definition deque_append :: "real list \<Rightarrow> real \<Rightarrow> real list" where
  "deque_append xs x = (let ys = xs @ [x] in drop (length ys - 30) ys)"

text \<open>The performance summary every 60 detections: resets the window when time has passed.\<close>

definition performance_logging :: "pipeline_env \<Rightarrow> camera_manager \<Rightarrow> camera_manager" where
  "performance_logging env cm =
     (if detection_count cm mod 60 = 0 then
        (let current_time = clock_logged env;
             elapsed = current_time - fps_start_time cm
         in if elapsed > 0
            then cm\<lparr>fps_start_time := current_time, detection_times := []\<rparr>
            else cm)
      else cm)"

text \<open>The body of the \<open>try\<close> block once \<open>infer\<close> has returned \<open>results\<close>.\<close>

definition process_results ::
  "pipeline_env \<Rightarrow> camera_manager \<Rightarrow> nat \<Rightarrow> nat \<Rightarrow> real \<Rightarrow> prediction list list
     \<Rightarrow> camera_manager \<times> detection option" where
  "process_results env cm height width confidence_threshold results =
     (case results of
        [] \<Rightarrow> (cm, None)
      | predictions # _ \<Rightarrow>
         (case predictions of
            [] \<Rightarrow> (cm, None)
          | p # ps \<Rightarrow>
             (let best_detection = max_confidence p ps in
              if pconfidence best_detection > confidence_threshold then
                (let scale_x = real width / real (detection_frame_size cm);
                     scale_y = real height / real (detection_frame_size cm);
                     detection = \<lparr>det_x = px best_detection * scale_x,
                                  det_y = py best_detection * scale_y,
                                  det_width = pwidth best_detection * scale_x,
                                  det_height = pheight best_detection * scale_y,
                                  det_confidence = pconfidence best_detection,
                                  det_class = (case pclass best_detection of
                                                 None \<Rightarrow> ''hand'' | Some c \<Rightarrow> c)\<rparr>;
                     cm1 = cm\<lparr>current_detections := [detection],
                              detection_count := detection_count cm + 1\<rparr>;
                     detection_time = clock_detected env - clock_start env;
                     cm2 = cm1\<lparr>detection_times := deque_append (detection_times cm1) detection_time\<rparr>
                 in (performance_logging env cm2, Some detection))
              else (cm, None))))"

text \<open>
  \<open>process_frame\<close>: the guard returns before anything is touched; under the lock the frame
  counter is incremented, the frame is resized (outside the \<open>try\<close>, so a failure of the
  resize is raised), and every failure of the detector is caught and gives \<open>None\<close>.
\<close>

definition process_frame ::
  "pipeline_env \<Rightarrow> camera_manager \<Rightarrow> frame option \<Rightarrow> real
     \<Rightarrow> camera_manager \<times> (py_error + detection option)" where
  "process_frame env cm frame_opt confidence_threshold =
     (if \<not> tracking_enabled cm \<or> \<not> model_loaded cm \<or> frame_opt = None then (cm, Inr None)
      else
        (let frm = the frame_opt;
             cm1 = cm\<lparr>frame_count := frame_count cm + 1\<rparr>;
             height = fheight frm; width = fwidth frm
         in case resize env frm (detection_frame_size cm1) of
              Inl e \<Rightarrow> (cm1, Inl e)
            | Inr detection_frame \<Rightarrow>
               (case infer env detection_frame confidence_threshold of
                  Inl e \<Rightarrow> (cm1, Inr None)
                | Inr results \<Rightarrow>
                   (let (cm2, d) = process_results env cm1 height width confidence_threshold results
                    in (cm2, Inr d)))))"

subsection \<open>The frame streaming endpoint (/ws/frames)\<close>

text \<open>
  An inbound text frame: \<open>json.loads\<close> fails, or gives a value that is not an object, or
  gives an object, of which the handler reads the fields below. The fields \<open>frame\<close> and
  \<open>data\<close> are taken to be strings when present, the two confidences numbers.
\<close>

record frames_message =
  msg_type :: "string option"
  msg_frame :: "string option"
  msg_data :: "string option"
  msg_force_process :: bool
  msg_hand_detection_confidence :: "real option"
  msg_gesture_recognition_confidence :: "real option"

datatype frames_inbound = InvalidJson | NonObject | Object frames_message

text \<open>
  The messages the two endpoints send. \<open>DetectionMsg d t src\<close> is
  \<open>{"type": "detection", "detection": d, "timestamp": t}\<close>, with the key \<open>source\<close> when
  \<open>src\<close> is given; \<open>StatusMsg\<close> is \<open>{"status": ..., "message": ...}\<close>;
  \<open>RecognitionError e\<close> is the error message \<open>Failed to recognize gesture: str(e)\<close>.
\<close>

datatype outbound =
    Pong real
  | DetectionMsg "detection option" real "string option"
  | FrameReceived
  | ConfidenceUpdated real real
  | ErrorMsg string
  | ConnectionEstablished string real real
  | StatusMsg string string
  | InfoMsg string
  | GestureRecognized string real string
  | GestureNotRecognized string
  | RecognitionError py_error

text \<open>The process-wide state: the manager and the two confidence thresholds.\<close>

record server =
  camera :: camera_manager
  current_hand_detection_confidence :: real
  current_gesture_recognition_confidence :: real

text \<open>The local variables of one connection of the frame streaming endpoint.\<close>

record frames_conn =
  frame_skip_counter :: int
  process_every_nth_frame :: real

text \<open>
  The double that the literal \<open>0.2\<close> denotes, \<open>0x1.999999999999ap-3\<close>; the literal \<open>0.5\<close>
  denotes one half itself.
\<close>

definition float_0_2 :: real where
  "float_0_2 = 3602879701896397 / 18014398509481984"

definition initial_frames_conn :: frames_conn where
  "initial_frames_conn = \<lparr>frame_skip_counter = 0, process_every_nth_frame = 0.5\<rparr>"

text \<open>
  The collaborators of the endpoint: those of the pipeline, \<open>base64.b64decode\<close> (may raise),
  \<open>cv2.imdecode\<close> after \<open>np.frombuffer\<close> (gives \<open>None\<close> for bytes that are no image), and
  the clock reading put into the responses.
\<close>

record session_env = pipeline_env +
  b64decode :: "string \<Rightarrow> py_error + nat list"
  imdecode :: "nat list \<Rightarrow> frame option"
  clock_send :: real

text \<open>
  Python's \<open>%\<close> on floats: the result has the sign of the divisor; zero raises. For two
  positive doubles it is C's \<open>fmod\<close>, which is exact, so it is the remainder of the two
  values as real numbers. The endpoint applies it to its counter, which is converted to a
  double without rounding below \<open>2^53\<close>, and to one of its two divisors.
\<close>

definition py_float_mod :: "real \<Rightarrow> real \<Rightarrow> py_error + real" where
  "py_float_mod a b = (if b = 0 then Inl ZeroDivisionError else Inr (a - b * of_int \<lfloor>a / b\<rfloor>))"

text \<open>\<open>s.split(c)\<close>: the pieces of \<open>s\<close> between the occurrences of \<open>c\<close>.\<close>

fun split_on :: "char \<Rightarrow> string \<Rightarrow> string list" where
  "split_on c [] = [[]]"
| "split_on c (x # xs) =
     (if x = c then [] # split_on c xs
      else (case split_on c xs of [] \<Rightarrow> [[x]] | w # ws \<Rightarrow> (x # w) # ws))"

text \<open>\<open>a or b\<close> on two optional strings: the first that is neither \<open>None\<close> nor empty, else \<open>b\<close>.\<close>

definition py_or :: "string option \<Rightarrow> string option \<Rightarrow> string option" where
  "py_or a b = (case a of None \<Rightarrow> b | Some s \<Rightarrow> if s = [] then b else Some s)"

definition truthy :: "string option \<Rightarrow> bool" where
  "truthy a = (case a of None \<Rightarrow> False | Some s \<Rightarrow> s \<noteq> [])"

text \<open>The decoding inside the \<open>try\<close> of the frame branch, up to \<open>cv2.imdecode\<close>.\<close>

definition decode_frame :: "session_env \<Rightarrow> string \<Rightarrow> py_error + frame option" where
  "decode_frame env frame_data =
     (let frame_data1 = (if CHR '','' \<in> set frame_data
                         then split_on CHR '','' frame_data ! 1 else frame_data)
      in case b64decode env frame_data1 of
           Inl e \<Rightarrow> Inl e
         | Inr frame_bytes \<Rightarrow> Inr (imdecode env frame_bytes))"

text \<open>\<open>should_process = frame_skip_counter % process_every_nth_frame == 0\<close>.\<close>

definition should_process :: "frames_conn \<Rightarrow> py_error + bool" where
  "should_process conn =
     (case py_float_mod (of_int (frame_skip_counter conn)) (process_every_nth_frame conn) of
        Inl e \<Rightarrow> Inl e
      | Inr r \<Rightarrow> Inr (r = 0))"

text \<open>
  The branch for \<open>type = "frame"\<close>. An exception of the modulo reaches the handler of the
  loop body, which sends a detection message with \<open>null\<close>; the exceptions of the decoding
  and of \<open>process_frame\<close> are caught by the inner \<open>try\<close>.
\<close>

definition handle_frame ::
  "session_env \<Rightarrow> server \<Rightarrow> frames_conn \<Rightarrow> frames_message
     \<Rightarrow> server \<times> frames_conn \<times> outbound list" where
  "handle_frame env srv conn message =
     (let frame_data = py_or (msg_frame message) (msg_data message);
          conn1 = conn\<lparr>frame_skip_counter := frame_skip_counter conn + 1\<rparr>
      in case should_process conn1 of
           Inl e \<Rightarrow> (srv, conn1, [DetectionMsg None (clock_send env) None])
         | Inr sp \<Rightarrow>
            (let sent = [FrameReceived] in
             if truthy frame_data \<and> tracking_enabled (camera srv) \<and> sp then
               (case decode_frame env (the frame_data) of
                  Inl e \<Rightarrow> (srv, conn1, sent @ [DetectionMsg None (clock_send env) None])
                | Inr None \<Rightarrow> (srv, conn1, sent @ [DetectionMsg None (clock_send env) None])
                | Inr (Some frm) \<Rightarrow>
                   (case process_frame (pipeline_env.truncate env) (camera srv) (Some frm)
                           (current_hand_detection_confidence srv) of
                      (cm, Inl e) \<Rightarrow>
                        (srv\<lparr>camera := cm\<rparr>, conn1, sent @ [DetectionMsg None (clock_send env) None])
                    | (cm, Inr detection) \<Rightarrow>
                        (srv\<lparr>camera := cm\<rparr>, conn1,
                         sent @ [DetectionMsg detection (clock_send env) None])))
             else (srv, conn1, sent @ [DetectionMsg None (clock_send env) None])))"

text \<open>The branch for \<open>type = "refresh_detection"\<close>.\<close>

definition handle_refresh ::
  "session_env \<Rightarrow> server \<Rightarrow> frames_conn \<Rightarrow> frames_message
     \<Rightarrow> server \<times> frames_conn \<times> outbound list" where
  "handle_refresh env srv conn message =
     (let force_process = msg_force_process message;
          srv1 = (if \<not> tracking_enabled (camera srv)
                  then srv\<lparr>camera := (camera srv)\<lparr>tracking_enabled := True\<rparr>\<rparr> else srv);
          conn1 = (if force_process then conn\<lparr>process_every_nth_frame := float_0_2\<rparr> else conn)
      in case current_detections (camera srv1) of
           detection # _ \<Rightarrow>
             (srv1, conn1, [DetectionMsg (Some detection) (clock_send env) (Some ''refresh_request'')])
         | [] \<Rightarrow>
             (srv1, conn1, [DetectionMsg None (clock_send env) (Some ''refresh_request'')]))"

text \<open>The branch for \<open>type = "update_confidence"\<close>.\<close>

definition handle_update_confidence ::
  "server \<Rightarrow> frames_message \<Rightarrow> server \<times> outbound list" where
  "handle_update_confidence srv message =
     (let srv1 = (case msg_hand_detection_confidence message of
                    None \<Rightarrow> srv | Some c \<Rightarrow> srv\<lparr>current_hand_detection_confidence := c\<rparr>);
          srv2 = (case msg_gesture_recognition_confidence message of
                    None \<Rightarrow> srv1 | Some c \<Rightarrow> srv1\<lparr>current_gesture_recognition_confidence := c\<rparr>)
      in (srv2, [ConfidenceUpdated (current_hand_detection_confidence srv2)
                                   (current_gesture_recognition_confidence srv2)]))"

text \<open>
  One turn of the loop of \<open>frame_stream_endpoint\<close>: the new process-wide state, the new
  connection state and the messages sent, in order. The last \<open>else\<close> only logs a warning.
\<close>

definition frame_stream_step ::
  "session_env \<Rightarrow> server \<Rightarrow> frames_conn \<Rightarrow> frames_inbound
     \<Rightarrow> server \<times> frames_conn \<times> outbound list" where
  "frame_stream_step env srv conn inb =
     (case inb of
        InvalidJson \<Rightarrow> (srv, conn, [ErrorMsg ''Invalid JSON format''])
      | NonObject \<Rightarrow> (srv, conn, [DetectionMsg None (clock_send env) None])
      | Object message \<Rightarrow>
         if msg_type message = Some ''ping'' then (srv, conn, [Pong (clock_send env)])
         else if msg_type message = Some ''refresh_detection''
           then handle_refresh env srv conn message
         else if msg_type message = Some ''update_confidence''
           then (let (srv1, sent) = handle_update_confidence srv message in (srv1, conn, sent))
         else if msg_type message = Some ''frame'' then handle_frame env srv conn message
         else (srv, conn, []))"

text \<open>The loop over the inbound messages of a connection, collecting what is sent.\<close>

fun frame_stream_run ::
  "session_env \<Rightarrow> server \<Rightarrow> frames_conn \<Rightarrow> frames_inbound list
     \<Rightarrow> server \<times> frames_conn \<times> outbound list" where
  "frame_stream_run env srv conn [] = (srv, conn, [])"
| "frame_stream_run env srv conn (inb # rest) =
     (let (srv1, conn1, sent1) = frame_stream_step env srv conn inb;
          (srv2, conn2, sent2) = frame_stream_run env srv1 conn1 rest
      in (srv2, conn2, sent1 @ sent2))"

subsection \<open>The gesture recognizer (class SimpleGestureRecognizer)\<close>

text \<open>
  A point of a trajectory as it arrives: a dict (of which the keys \<open>x\<close> and \<open>y\<close> are read,
  each with default 0), a list or tuple of numbers, or anything else. After the conversion
  of the normalizer a point is a pair \<open>[x, y]\<close>.
\<close>

datatype raw_point = DictPoint "real option" "real option" | SeqPoint "real list" | OtherPoint

type_synonym point = "real \<times> real"

text \<open>The conversion loop of \<open>normalize_trajectory\<close>: malformed entries are skipped.\<close>

fun to_points :: "raw_point list \<Rightarrow> point list" where
  "to_points [] = []"
| "to_points (DictPoint x y # rest) =
     (case x of None \<Rightarrow> 0 | Some v \<Rightarrow> v, case y of None \<Rightarrow> 0 | Some v \<Rightarrow> v) # to_points rest"
| "to_points (SeqPoint cs # rest) =
     (if length cs \<ge> 2 then (cs ! 0, cs ! 1) # to_points rest else to_points rest)"
| "to_points (OtherPoint # rest) = to_points rest"

text \<open>The bounds and the scaling, on a list of at least two converted points.\<close>

definition normalize_points :: "point list \<Rightarrow> point list" where
  "normalize_points points =
     (let xs = map fst points; ys = map snd points;
          min_x = Min (set xs); max_x = Max (set xs);
          min_y = Min (set ys); max_y = Max (set ys);
          width = (if max_x > min_x then max_x - min_x else 1);
          height = (if max_y > min_y then max_y - min_y else 1)
      in map (\<lambda>(x, y). ((x - min_x) / width, (y - min_y) / height)) points)"

text \<open>
  What \<open>normalize_trajectory\<close> returns: its argument itself (fewer than two entries), or a
  list of pairs \<open>[x, y]\<close>.
\<close>

datatype normalized = Unchanged "raw_point list" | Points "point list"

definition normalize_trajectory :: "raw_point list \<Rightarrow> normalized" where
  "normalize_trajectory trajectory =
     (if length trajectory < 2 then Unchanged trajectory
      else (let points = to_points trajectory
            in if length points < 2 then Points points
               else Points (normalize_points points)))"

text \<open>The length of a segment, \<open>(dx * dx + dy * dy) ** 0.5\<close>, from \<open>p\<close> to \<open>q\<close>.\<close>

definition seg_len :: "point \<Rightarrow> point \<Rightarrow> real" where
  "seg_len p q =
     (let dx = fst q - fst p; dy = snd q - snd p in sqrt (dx * dx + dy * dy))"

text \<open>The first loop of \<open>resample_trajectory\<close>: the total path length.\<close>

definition path_length :: "point list \<Rightarrow> real" where
  "path_length trajectory =
     foldl (\<lambda>total_length i. total_length + seg_len (trajectory ! (i - 1)) (trajectory ! i))
       0 [1..<length trajectory]"

text \<open>
  The \<open>while\<close> loop for one target distance: it advances the cursor
  \<open>(current_distance, current_point_idx)\<close> and stops with the interpolated point once the
  target falls into the current segment, or with no point when its condition fails.
\<close>

function walk :: "point list \<Rightarrow> real \<Rightarrow> real \<Rightarrow> nat \<Rightarrow> point option \<times> real \<times> nat" where
  "walk trajectory target_total_distance current_distance current_point_idx =
     (if current_distance < target_total_distance \<and> current_point_idx < length trajectory - 1
      then
        (let dx = fst (trajectory ! (current_point_idx + 1)) - fst (trajectory ! current_point_idx);
             dy = snd (trajectory ! (current_point_idx + 1)) - snd (trajectory ! current_point_idx);
             segment_length = sqrt (dx * dx + dy * dy)
         in if current_distance + segment_length \<ge> target_total_distance then
              (let remaining_distance = target_total_distance - current_distance in
               if segment_length > 0 then
                 (let ratio = remaining_distance / segment_length;
                      new_x = fst (trajectory ! current_point_idx) + dx * ratio;
                      new_y = snd (trajectory ! current_point_idx) + dy * ratio
                  in (Some (new_x, new_y), current_distance, current_point_idx))
               else (Some (trajectory ! current_point_idx), current_distance, current_point_idx))
            else walk trajectory target_total_distance
                   (current_distance + segment_length) (current_point_idx + 1))
      else (None, current_distance, current_point_idx))"
  by pat_completeness auto
termination
  by (relation "measure (\<lambda>(trajectory, target, cur, idx). length trajectory - idx)") auto

declare walk.simps [simp del]

text \<open>One turn of the \<open>for\<close> loop over \<open>i\<close>.\<close>

definition resample_step ::
  "point list \<Rightarrow> real \<Rightarrow> point list \<times> real \<times> nat \<Rightarrow> nat \<Rightarrow> point list \<times> real \<times> nat" where
  "resample_step trajectory target_distance state i =
     (case state of (resampled, current_distance, current_point_idx) \<Rightarrow>
        (let target_total_distance = real i * target_distance
         in case walk trajectory target_total_distance current_distance current_point_idx of
              (None, cur, idx) \<Rightarrow> (resampled, cur, idx)
            | (Some p, cur, idx) \<Rightarrow> (resampled @ [p], cur, idx)))"

definition resample_trajectory :: "point list \<Rightarrow> int \<Rightarrow> point list" where
  "resample_trajectory trajectory target_count =
     (if length trajectory \<le> 1 \<or> target_count \<le> 1 then trajectory
      else if int (length trajectory) = target_count then trajectory
      else
        (let total_length = path_length trajectory in
         if total_length = 0 then trajectory
         else
           (let target_distance = total_length / (of_int target_count - 1);
                (resampled, current_distance, current_point_idx) =
                   foldl (resample_step trajectory target_distance)
                     ([trajectory ! 0], 0, 0) [1..<nat (target_count - 1)]
            in resampled @ [last trajectory])))"

text \<open>
  The distance loop of \<open>calculate_similarity\<close>: \<open>resampled2[i]\<close> raises when the second list
  is the shorter one.
\<close>

fun sum_distances :: "point list \<Rightarrow> point list \<Rightarrow> nat list \<Rightarrow> real \<Rightarrow> py_error + real" where
  "sum_distances resampled1 resampled2 [] total_distance = Inr total_distance"
| "sum_distances resampled1 resampled2 (i # rest) total_distance =
     (if i < length resampled2 then
        (let dx = fst (resampled1 ! i) - fst (resampled2 ! i);
             dy = snd (resampled1 ! i) - snd (resampled2 ! i);
             distance = sqrt (dx * dx + dy * dy)
         in sum_distances resampled1 resampled2 rest (total_distance + distance))
      else Inl IndexError)"

definition calculate_similarity :: "point list \<Rightarrow> point list \<Rightarrow> py_error + real" where
  "calculate_similarity trajectory1 trajectory2 =
     (if trajectory1 = [] \<or> trajectory2 = [] then Inr 0
      else
        (let target_points = min 50 (max (int (length trajectory1)) (int (length trajectory2)));
             resampled1 = resample_trajectory trajectory1 target_points;
             resampled2 = resample_trajectory trajectory2 target_points
         in case sum_distances resampled1 resampled2 [0..<length resampled1] 0 of
              Inl e \<Rightarrow> Inl e
            | Inr total_distance \<Rightarrow>
               if length resampled1 = 0 then Inl ZeroDivisionError
               else
                 (let avg_distance = total_distance / real (length resampled1);
                      max_distance = 1.414
                  in Inr (max 0 (1 - avg_distance / max_distance)))))"

text \<open>
  A stored template and the result of a recognition. The dict \<open>self.templates\<close> is the
  list of its items in insertion order.
\<close>

record template =
  tpl_id :: string
  tpl_name :: string
  tpl_trajectory :: normalized
  tpl_point_count :: nat

record gesture_match =
  match_template_id :: string
  match_name :: string
  match_similarity :: real
  match_confidence :: real

definition normalized_length :: "normalized \<Rightarrow> nat" where
  "normalized_length n = (case n of Unchanged raw \<Rightarrow> length raw | Points ps \<Rightarrow> length ps)"

text \<open>\<open>self.templates[template_id] = ...\<close>: an existing key keeps its place.\<close>

fun dict_set :: "(string \<times> template) list \<Rightarrow> string \<Rightarrow> template \<Rightarrow> (string \<times> template) list" where
  "dict_set [] k v = [(k, v)]"
| "dict_set ((k', v') # rest) k v =
     (if k' = k then (k, v) # rest else (k', v') # dict_set rest k v)"

definition add_template ::
  "(string \<times> template) list \<Rightarrow> string \<Rightarrow> string \<Rightarrow> raw_point list \<Rightarrow> (string \<times> template) list" where
  "add_template templates template_id name trajectory =
     (let normalized_trajectory = normalize_trajectory trajectory
      in dict_set templates template_id
           \<lparr>tpl_id = template_id, tpl_name = name, tpl_trajectory = normalized_trajectory,
            tpl_point_count = normalized_length normalized_trajectory\<rparr>)"

text \<open>
  The entries of a stored trajectory read as pairs, as the indexing \<open>p[0]\<close>, \<open>p[1]\<close> of
  \<open>calculate_similarity\<close> and \<open>resample_trajectory\<close> reads them. A stored trajectory is
  either empty, or a single unconverted entry, or a list of pairs; against an input of at
  least two points a single entry raises in every case (at index 1 at the latest), so
  reading the entries before the comparison raises exactly when the comparison does.
\<close>

fun raw_coords :: "raw_point list \<Rightarrow> py_error + point list" where
  "raw_coords [] = Inr []"
| "raw_coords (SeqPoint cs # rest) =
     (if length cs \<ge> 2 then
        (case raw_coords rest of Inl e \<Rightarrow> Inl e | Inr ps \<Rightarrow> Inr ((cs ! 0, cs ! 1) # ps))
      else Inl IndexError)"
| "raw_coords (DictPoint x y # rest) = Inl KeyError"
| "raw_coords (OtherPoint # rest) = Inl TypeError"

definition as_points :: "normalized \<Rightarrow> py_error + point list" where
  "as_points n = (case n of Unchanged raw \<Rightarrow> raw_coords raw | Points ps \<Rightarrow> Inr ps)"

definition template_similarity :: "point list \<Rightarrow> template \<Rightarrow> py_error + real" where
  "template_similarity normalized_input tpl =
     (case as_points (tpl_trajectory tpl) of
        Inl e \<Rightarrow> Inl e
      | Inr ps \<Rightarrow> calculate_similarity normalized_input ps)"

text \<open>The loop of \<open>recognize_gesture\<close> over the items of the dict, with its two variables.\<close>

fun match_loop ::
  "point list \<Rightarrow> real \<Rightarrow> (string \<times> template) list \<Rightarrow> gesture_match option \<Rightarrow> real
     \<Rightarrow> py_error + gesture_match option" where
  "match_loop normalized_input confidence_threshold [] best_match best_similarity = Inr best_match"
| "match_loop normalized_input confidence_threshold ((template_id, tpl) # rest)
       best_match best_similarity =
     (case template_similarity normalized_input tpl of
        Inl e \<Rightarrow> Inl e
      | Inr similarity \<Rightarrow>
         if similarity > best_similarity \<and> similarity \<ge> confidence_threshold then
           match_loop normalized_input confidence_threshold rest
             (Some \<lparr>match_template_id = template_id, match_name = tpl_name tpl,
                    match_similarity = similarity, match_confidence = similarity\<rparr>)
             similarity
         else match_loop normalized_input confidence_threshold rest best_match best_similarity)"

definition recognize_gesture ::
  "(string \<times> template) list \<Rightarrow> raw_point list \<Rightarrow> real \<Rightarrow> py_error + gesture_match option" where
  "recognize_gesture templates trajectory confidence_threshold =
     (if length trajectory < 2 then Inr None
      else if templates = [] then Inr None
      else
        (let normalized_input = normalize_trajectory trajectory
         in if normalized_length normalized_input < 2 then Inr None
            else
              (case as_points normalized_input of
                 Inl e \<Rightarrow> Inl e
               | Inr ps \<Rightarrow> match_loop ps confidence_threshold templates None 0)))"

subsection \<open>The command endpoint (/ws)\<close>

text \<open>
  The fields the endpoint reads of a template sent with a request, and of a request:
  \<open>trajectory\<close> and \<open>templates\<close> default to the empty list.
\<close>

record template_message =
  tm_name :: "string option"
  tm_trajectory :: "raw_point list"
  tm_command :: "string option"

record ws_message =
  ws_message_type :: "string option"
  ws_type :: "string option"
  ws_trajectory :: "raw_point list"
  ws_confidence_threshold :: "real option"
  ws_templates :: "template_message list"

text \<open>The decimal digits of an index, as the f-string prints it.\<close>

fun show_nat :: "nat \<Rightarrow> string" where
  "show_nat n =
     (if n < 10 then [''0123456789'' ! n] else show_nat (n div 10) @ [''0123456789'' ! (n mod 10)])"

declare show_nat.simps [simp del]

text \<open>\<open>template.get("name", "unknown")\<close>.\<close>

definition name_or_unknown :: "template_message \<Rightarrow> string" where
  "name_or_unknown t = (case tm_name t of None \<Rightarrow> ''unknown'' | Some n \<Rightarrow> n)"

text \<open>
  The temporary recognizer: the templates of the request are added in order, under the
  keys \<open>temp_{i}_{name}\<close>.
\<close>

fun load_templates ::
  "(string \<times> template) list \<Rightarrow> nat \<Rightarrow> template_message list \<Rightarrow> (string \<times> template) list" where
  "load_templates store i [] = store"
| "load_templates store i (t # rest) =
     (let template_id = ''temp_'' @ show_nat i @ ''_'' @ name_or_unknown t;
          template_name = name_or_unknown t;
          template_trajectory = tm_trajectory t
      in load_templates (add_template store template_id template_name template_trajectory)
           (i + 1) rest)"

text \<open>
  The branch for \<open>recognize_gesture\<close>; any exception raised in it is answered by an error
  message that carries the exception.
\<close>

definition handle_recognize :: "server \<Rightarrow> ws_message \<Rightarrow> outbound list" where
  "handle_recognize srv message =
     (let trajectory = ws_trajectory message;
          confidence_threshold =
            (case ws_confidence_threshold message of
               None \<Rightarrow> current_gesture_recognition_confidence srv | Some c \<Rightarrow> c);
          templates = ws_templates message
      in if length trajectory < 2
           then [GestureNotRecognized ''Trajectory must have at least 2 points'']
         else if templates = []
           then [GestureNotRecognized ''No templates provided for recognition'']
         else
           (case recognize_gesture (load_templates [] 0 templates) trajectory confidence_threshold of
              Inl e \<Rightarrow> [RecognitionError e]
            | Inr None \<Rightarrow> [GestureNotRecognized ''No matching gesture found'']
            | Inr (Some recognition_result) \<Rightarrow>
               (let command =
                      (case find (\<lambda>t. tm_name t = Some (match_name recognition_result)) templates of
                         None \<Rightarrow> ''''
                       | Some matching_template \<Rightarrow>
                           (case tm_command matching_template of None \<Rightarrow> '''' | Some c \<Rightarrow> c))
                in [GestureRecognized (match_name recognition_result)
                      (match_confidence recognition_result) command])))"

text \<open>
  One turn of the loop of \<open>websocket_endpoint\<close> on a decoded object: the new process-wide
  state and the messages sent.
\<close>

definition websocket_step :: "real \<Rightarrow> server \<Rightarrow> ws_message \<Rightarrow> server \<times> outbound list" where
  "websocket_step now srv message =
     (let message_type = py_or (ws_message_type message) (ws_type message)
      in if message_type = Some ''ping'' then (srv, [Pong now])
         else if message_type = Some ''start_tracking'' then
           (srv\<lparr>camera := (camera srv)\<lparr>tracking_enabled := True\<rparr>\<rparr>,
            [StatusMsg ''success'' ''Tracking started''])
         else if message_type = Some ''stop_tracking'' then
           (srv\<lparr>camera := (camera srv)\<lparr>tracking_enabled := False, current_detections := []\<rparr>\<rparr>,
            [StatusMsg ''success'' ''Tracking stopped''])
         else if message_type = Some ''save_template'' then
           (srv, [InfoMsg ''Templates are now stored client-side only. Backend operates stateless.''])
         else if message_type = Some ''recognize_gesture'' then (srv, handle_recognize srv message)
         else
           (srv, [StatusMsg ''error''
                    (''Unknown message type: ''
                       @ (case message_type of None \<Rightarrow> ''None'' | Some kind \<Rightarrow> kind))]))"

text \<open>The kinds the endpoint recognizes.\<close>

definition known_ws_kinds :: "string list" where
  "known_ws_kinds =
     [''ping'', ''start_tracking'', ''stop_tracking'', ''save_template'', ''recognize_gesture'']"

subsection \<open>Auxiliary notions for the statements and proofs\<close>

text \<open>The map that \<open>normalize_points\<close> applies to one axis, given all coordinates of that axis.\<close>

definition axis_scale :: "real list \<Rightarrow> real \<Rightarrow> real" where
  "axis_scale zs z =
     (z - Min (set zs)) / (if Max (set zs) > Min (set zs) then Max (set zs) - Min (set zs) else 1)"

text \<open>
  The arc length of the polyline up to its vertex \<open>j\<close>: the path length loop stopped after
  \<open>j\<close> segments.
\<close>

definition cum_length :: "point list \<Rightarrow> nat \<Rightarrow> real" where
  "cum_length trajectory j =
     foldl (\<lambda>total_length i. total_length + seg_len (trajectory ! (i - 1)) (trajectory ! i))
       0 [1..<Suc j]"

text \<open>Linear interpolation between two points.\<close>

definition lerp :: "point \<Rightarrow> point \<Rightarrow> real \<Rightarrow> point" where
  "lerp p q ratio = (fst p + (fst q - fst p) * ratio, snd p + (snd q - snd p) * ratio)"

text \<open>
  The specification of a resampled point: \<open>p\<close> lies at arc length \<open>d\<close> along the polyline,
  linearly interpolated within the segment that contains that arc length.
\<close>

definition placed_at :: "point list \<Rightarrow> real \<Rightarrow> point \<Rightarrow> bool" where
  "placed_at trajectory d p =
     (\<exists>j\<in>{..<length trajectory - 1}.
        cum_length trajectory j < d \<and> d \<le> cum_length trajectory (Suc j)
        \<and> p = lerp (trajectory ! j) (trajectory ! Suc j)
                 ((d - cum_length trajectory j) / seg_len (trajectory ! j) (trajectory ! Suc j)))"

text \<open>
  The similarity as the specification words it, with the divisor left open: both
  trajectories resampled to \<open>min(50, max(len, len))\<close> points, the mean Euclidean distance
  between corresponding points, and \<open>max(0, 1 - mean / divisor)\<close>.
\<close>

definition euclidean_distance :: "point \<Rightarrow> point \<Rightarrow> real" where
  "euclidean_distance p q = sqrt ((fst p - fst q)\<^sup>2 + (snd p - snd q)\<^sup>2)"

definition spec_similarity :: "real \<Rightarrow> point list \<Rightarrow> point list \<Rightarrow> real" where
  "spec_similarity divisor trajectory1 trajectory2 =
     (let count = min 50 (max (int (length trajectory1)) (int (length trajectory2)));
          resampled1 = resample_trajectory trajectory1 count;
          resampled2 = resample_trajectory trajectory2 count;
          mean_distance = (\<Sum>i<nat count. euclidean_distance (resampled1 ! i) (resampled2 ! i)) / real (nat count)
      in max 0 (1 - mean_distance / divisor))"

text \<open>The dict that \<open>recognize_gesture\<close> builds for a template and its similarity.\<close>

definition match_of :: "string \<times> template \<Rightarrow> real \<Rightarrow> gesture_match" where
  "match_of item s =
     \<lparr>match_template_id = fst item, match_name = tpl_name (snd item),
      match_similarity = s, match_confidence = s\<rparr>"

subsection \<open>Concrete collaborators and states used to exercise the model\<close>

text \<open>The manager as \<open>__init__\<close> leaves it, given whether a model could be loaded.\<close>

definition initial_manager :: "bool \<Rightarrow> real \<Rightarrow> camera_manager" where
  "initial_manager loaded now =
     \<lparr>model_loaded = loaded, is_active = True, tracking_enabled = True, frame_count = 0,
      detection_count = 0, fps_start_time = now, detection_times = [],
      current_detections = [], detection_frame_size = 320\<rparr>"

definition initial_server :: "bool \<Rightarrow> real \<Rightarrow> server" where
  "initial_server loaded now =
     \<lparr>camera = initial_manager loaded now,
      current_hand_detection_confidence = 0.75,
      current_gesture_recognition_confidence = 0.85\<rparr>"

text \<open>A codec that decodes every payload but \<open>''!''\<close>, and a detector that always raises.\<close>

definition failing_env :: session_env where
  "failing_env =
     \<lparr>resize = (\<lambda>frm n. Inr \<lparr>fheight = n, fwidth = n\<rparr>),
      infer = (\<lambda>frm thr. Inl (ExternalError ''inference failed'')),
      clock_start = 0, clock_detected = 0, clock_logged = 0,
      b64decode = (\<lambda>s. if s = ''!'' then Inl ValueError else Inr []),
      imdecode = (\<lambda>bs. Some \<lparr>fheight = 480, fwidth = 640\<rparr>),
      clock_send = 0\<rparr>"

text \<open>The same codec with a detector that finds one hand at the centre of the inference frame.\<close>

definition detecting_env :: session_env where
  "detecting_env =
     \<lparr>resize = (\<lambda>frm n. Inr \<lparr>fheight = n, fwidth = n\<rparr>),
      infer = (\<lambda>frm thr. Inr [[\<lparr>px = 160, py = 160, pwidth = 32, pheight = 32,
                                   pconfidence = 0.9, pclass = None\<rparr>]]),
      clock_start = 0, clock_detected = 0, clock_logged = 0,
      b64decode = (\<lambda>s. if s = ''!'' then Inl ValueError else Inr []),
      imdecode = (\<lambda>bs. Some \<lparr>fheight = 480, fwidth = 640\<rparr>),
      clock_send = 0\<rparr>"

definition frame_message :: "string \<Rightarrow> frames_message" where
  "frame_message payload =
     \<lparr>msg_type = Some ''frame'', msg_frame = Some payload, msg_data = None,
      msg_force_process = False, msg_hand_detection_confidence = None,
      msg_gesture_recognition_confidence = None\<rparr>"

definition typed_message :: "string \<Rightarrow> frames_message" where
  "typed_message kind =
     \<lparr>msg_type = Some kind, msg_frame = None, msg_data = None,
      msg_force_process = False, msg_hand_detection_confidence = None,
      msg_gesture_recognition_confidence = None\<rparr>"

text \<open>
  Two stored templates, the anti-diagonal and the diagonal of a square, and a store with
  the diagonal drawn backwards.
\<close>

definition example_templates :: "(string \<times> template) list" where
  "example_templates =
     add_template
       (add_template [] ''temp_0_anti'' ''anti'' [SeqPoint [3, 0], SeqPoint [0, 3]])
       ''temp_1_diag'' ''diag'' [SeqPoint [0, 0], SeqPoint [2, 2]]"

definition backwards_templates :: "(string \<times> template) list" where
  "backwards_templates =
     add_template [] ''temp_0_back'' ''back'' [SeqPoint [5, 5], SeqPoint [0, 0]]"

section \<open>Properties\<close>

subsection \<open>The pipeline\<close>

text \<open>
  C7. A frame submitted while tracking is disabled, or while no model is loaded, or an
  absent frame, gives no detection and leaves the whole manager unchanged, in particular
  the frame counter, the detection counter, the latency window and the current detection.
\<close>

theorem process_frame_guard_noop:
  assumes "\<not> tracking_enabled cm \<or> \<not> model_loaded cm \<or> frame_opt = None"
  shows "process_frame env cm frame_opt thr = (cm, Inr None)"
  using assms by (simp add: process_frame_def)

theorem process_frame_guard_noop_witness:
  "process_frame (pipeline_env.truncate failing_env)
       ((initial_manager True 0)\<lparr>tracking_enabled := False\<rparr>)
       (Some \<lparr>fheight = 480, fwidth = 640\<rparr>) 0.75
     = ((initial_manager True 0)\<lparr>tracking_enabled := False\<rparr>, Inr None)"
  using process_frame_guard_noop
    [of "(initial_manager True 0)\<lparr>tracking_enabled := False\<rparr>"
        "Some \<lparr>fheight = 480, fwidth = 640\<rparr>" "pipeline_env.truncate failing_env" "0.75"]
  by simp

text \<open>
  C6. When the call of the detector raises, \<open>process_frame\<close> returns \<open>None\<close> and raises
  nothing; only the frame counter has changed.
\<close>

theorem process_frame_detector_failure:
  assumes "tracking_enabled cm" and "model_loaded cm"
    and "resize env frm (detection_frame_size cm) = Inr detection_frame"
    and "infer env detection_frame thr = Inl e"
  shows "process_frame env cm (Some frm) thr = (cm\<lparr>frame_count := frame_count cm + 1\<rparr>, Inr None)"
  using assms by (simp add: process_frame_def)

theorem process_frame_detector_failure_witness:
  "process_frame (pipeline_env.truncate failing_env) (initial_manager True 0)
       (Some \<lparr>fheight = 480, fwidth = 640\<rparr>) 0.75
     = ((initial_manager True 0)\<lparr>frame_count := 1\<rparr>, Inr None)"
  using process_frame_detector_failure
    [of "initial_manager True 0" "pipeline_env.truncate failing_env"
        "\<lparr>fheight = 480, fwidth = 640\<rparr>" "\<lparr>fheight = 320, fwidth = 320\<rparr>" "0.75"
        "ExternalError ''inference failed''"]
  by (simp add: initial_manager_def failing_env_def pipeline_env.truncate_def)

subsection \<open>The frame streaming endpoint\<close>

lemma py_float_mod_half: "py_float_mod (of_int n) 0.5 = Inr 0"
proof -
  have "real_of_int n / 0.5 = of_int (2 * n)" by simp
  then have "\<lfloor>real_of_int n / 0.5\<rfloor> = 2 * n" by (simp only: floor_of_int)
  then show ?thesis by (simp add: py_float_mod_def)
qed

text \<open>
  C10. With the divisor 0.5 of a fresh connection, the remainder of every positive counter
  is 0, so \<open>should_process\<close> is true on every frame: the skip policy skips nothing.
\<close>

theorem default_divisor_never_skips:
  assumes "0 < n"
  shows "process_every_nth_frame initial_frames_conn = 0.5
       \<and> py_float_mod (of_int n) (process_every_nth_frame initial_frames_conn) = Inr 0
       \<and> should_process (initial_frames_conn\<lparr>frame_skip_counter := n\<rparr>) = Inr True"
  using py_float_mod_half [of n] by (simp add: initial_frames_conn_def should_process_def)

theorem default_divisor_never_skips_witness:
  "(0::int) < 3
     \<and> py_float_mod (of_int 3) (process_every_nth_frame initial_frames_conn) = Inr 0
     \<and> should_process (initial_frames_conn\<lparr>frame_skip_counter := 3\<rparr>) = Inr True"
  using default_divisor_never_skips [of 3] by simp

lemma should_process_total:
  "process_every_nth_frame conn \<noteq> 0 \<Longrightarrow> \<exists>sp. should_process conn = Inr sp"
  by (simp add: should_process_def py_float_mod_def)

text \<open>
  The divisor of a connection is only ever 0.5 or the double of 0.2, so it is never zero.
\<close>

lemma frame_stream_step_divisor:
  assumes "frame_stream_step env srv conn inb = (srv', conn', sent)"
    and "process_every_nth_frame conn \<in> {0.5, float_0_2}"
  shows "process_every_nth_frame conn' \<in> {0.5, float_0_2}"
  using assms
  by (auto simp: frame_stream_step_def handle_refresh_def handle_frame_def
        handle_update_confidence_def Let_def
      split: frames_inbound.splits if_splits sum.splits option.splits prod.splits list.splits)

lemma frame_stream_run_divisor:
  assumes "frame_stream_run env srv conn inbs = (srv', conn', sent)"
    and "process_every_nth_frame conn \<in> {0.5, float_0_2}"
  shows "process_every_nth_frame conn' \<in> {0.5, float_0_2}"
  using assms
proof (induction inbs arbitrary: srv conn sent)
  case Nil
  then show ?case by simp
next
  case (Cons inb rest)
  obtain srv1 conn1 sent1 where s1: "frame_stream_step env srv conn inb = (srv1, conn1, sent1)"
    by (cases "frame_stream_step env srv conn inb") auto
  obtain srv2 conn2 sent2 where s2: "frame_stream_run env srv1 conn1 rest = (srv2, conn2, sent2)"
    by (cases "frame_stream_run env srv1 conn1 rest") auto
  from Cons.prems(1) s1 s2 have "srv' = srv2" and "conn' = conn2" by simp_all
  with s2 have s3: "frame_stream_run env srv1 conn1 rest = (srv', conn', sent2)" by simp
  have "process_every_nth_frame conn1 \<in> {0.5, float_0_2}"
    using frame_stream_step_divisor [OF s1 Cons.prems(2)] .
  then show ?case using Cons.IH [OF s3] by simp
qed

text \<open>
  With the divisor that \<open>refresh_detection\<close> sets when \<open>force_process\<close> is given, the remainder
  is not 0 for any counter below 3602879701896397: no frame of such a connection is processed.
\<close>

lemma float_0_2_coprime: "coprime (3602879701896397::int) 18014398509481984"
proof -
  have "odd (3602879701896397::int)" by simp
  then have "coprime (3602879701896397::int) 2" by (simp add: coprime_right_2_iff_odd)
  then have "coprime (3602879701896397::int) (2 ^ 54)"
    using coprime_power_right_iff [of "3602879701896397::int" 2 54] by blast
  moreover have "(2::int) ^ 54 = 18014398509481984" by simp
  ultimately show ?thesis by (simp only:)
qed

lemma forced_divisor_skips:
  assumes "0 < n" and "n < 3602879701896397"
  shows "should_process \<lparr>frame_skip_counter = n, process_every_nth_frame = float_0_2\<rparr> = Inr False"
proof -
  let ?k = "\<lfloor>real_of_int n / float_0_2\<rfloor>"
  have "real_of_int n - float_0_2 * of_int ?k \<noteq> 0"
  proof
    assume "real_of_int n - float_0_2 * of_int ?k = 0"
    then have "real_of_int n * 18014398509481984 = 3602879701896397 * of_int ?k"
      by (simp add: float_0_2_def field_simps)
    then have "real_of_int (n * 18014398509481984) = real_of_int (3602879701896397 * ?k)"
      by simp
    then have "n * 18014398509481984 = 3602879701896397 * ?k" by (simp only: of_int_eq_iff)
    then have "(3602879701896397::int) dvd n * 18014398509481984" by simp
    with float_0_2_coprime have "(3602879701896397::int) dvd n"
      by (simp add: coprime_dvd_mult_left_iff)
    with assms(1) have "3602879701896397 \<le> n" by (rule zdvd_imp_le [rotated])
    with assms(2) show False by simp
  qed
  then show ?thesis by (simp add: should_process_def py_float_mod_def float_0_2_def)
qed


text \<open>The three ways through the frame branch once the remainder is computed.\<close>

lemma handle_frame_gate_closed:
  assumes "should_process (conn\<lparr>frame_skip_counter := frame_skip_counter conn + 1\<rparr>) = Inr sp"
    and "\<not> truthy (py_or (msg_frame message) (msg_data message))
         \<or> \<not> tracking_enabled (camera srv) \<or> \<not> sp"
  shows "handle_frame env srv conn message
         = (srv, conn\<lparr>frame_skip_counter := frame_skip_counter conn + 1\<rparr>,
            [FrameReceived, DetectionMsg None (clock_send env) None])"
  using assms by (auto simp: handle_frame_def Let_def)

lemma handle_frame_no_image:
  assumes "should_process (conn\<lparr>frame_skip_counter := frame_skip_counter conn + 1\<rparr>) = Inr sp"
    and "py_or (msg_frame message) (msg_data message) = Some payload"
    and "\<forall>frm. decode_frame env payload \<noteq> Inr (Some frm)"
  shows "handle_frame env srv conn message
         = (srv, conn\<lparr>frame_skip_counter := frame_skip_counter conn + 1\<rparr>,
            [FrameReceived, DetectionMsg None (clock_send env) None])"
proof (cases "decode_frame env payload")
  case (Inl e)
  with assms(1,2) show ?thesis by (simp add: handle_frame_def Let_def)
next
  case (Inr fo)
  with assms(3) have "fo = None" by (cases fo) auto
  with Inr assms(1,2) show ?thesis by (simp add: handle_frame_def Let_def)
qed

lemma handle_frame_inference:
  assumes "should_process (conn\<lparr>frame_skip_counter := frame_skip_counter conn + 1\<rparr>) = Inr True"
    and "tracking_enabled (camera srv)"
    and "truthy (py_or (msg_frame message) (msg_data message))"
    and "py_or (msg_frame message) (msg_data message) = Some payload"
    and "decode_frame env payload = Inr (Some frm)"
    and "process_frame (pipeline_env.truncate env) (camera srv) (Some frm)
           (current_hand_detection_confidence srv) = (cm, r)"
  shows "handle_frame env srv conn message
         = (srv\<lparr>camera := cm\<rparr>, conn\<lparr>frame_skip_counter := frame_skip_counter conn + 1\<rparr>,
            [FrameReceived,
             DetectionMsg (case r of Inl e \<Rightarrow> None | Inr detection \<Rightarrow> detection)
               (clock_send env) None])"
  using assms by (cases r) (simp_all add: handle_frame_def Let_def)

text \<open>
  C5. Every message of type \<open>frame\<close> is answered by \<open>frame_received\<close> followed by exactly
  one \<open>detection\<close> message, and the counter is incremented. The detection is \<open>null\<close>, and
  the process-wide state is untouched, when there is no payload, when tracking is
  disabled, when the skip policy skips the frame, and when the payload does not decode to
  an image. Otherwise the pipeline runs once on the decoded image, its state is stored,
  and the detection sent is the one it returns, \<open>null\<close> when it returns none or raises.
  So the skip policy decides whether inference runs and never whether the two responses
  are sent. The divisor of a connection is never zero (\<open>frame_stream_run_divisor\<close>).
\<close>

theorem frame_always_answered:
  assumes "msg_type message = Some ''frame''"
    and "process_every_nth_frame conn \<noteq> 0"
  shows "(\<exists>d. snd (snd (frame_stream_step env srv conn (Object message)))
              = [FrameReceived, DetectionMsg d (clock_send env) None])
       \<and> ((\<forall>payload. py_or (msg_frame message) (msg_data message) = Some payload
              \<longrightarrow> (\<forall>frm. decode_frame env payload \<noteq> Inr (Some frm)))
            \<longrightarrow> snd (snd (frame_stream_step env srv conn (Object message)))
              = [FrameReceived, DetectionMsg None (clock_send env) None])
       \<and> (\<not> truthy (py_or (msg_frame message) (msg_data message))
            \<or> \<not> tracking_enabled (camera srv)
            \<or> should_process (conn\<lparr>frame_skip_counter := frame_skip_counter conn + 1\<rparr>)
                = Inr False
            \<longrightarrow> frame_stream_step env srv conn (Object message)
                = (srv, conn\<lparr>frame_skip_counter := frame_skip_counter conn + 1\<rparr>,
                   [FrameReceived, DetectionMsg None (clock_send env) None]))
       \<and> (\<forall>payload. py_or (msg_frame message) (msg_data message) = Some payload
              \<and> (\<forall>frm. decode_frame env payload \<noteq> Inr (Some frm))
            \<longrightarrow> frame_stream_step env srv conn (Object message)
                = (srv, conn\<lparr>frame_skip_counter := frame_skip_counter conn + 1\<rparr>,
                   [FrameReceived, DetectionMsg None (clock_send env) None]))
       \<and> (\<forall>payload frm cm r.
              truthy (py_or (msg_frame message) (msg_data message))
              \<and> tracking_enabled (camera srv)
              \<and> should_process (conn\<lparr>frame_skip_counter := frame_skip_counter conn + 1\<rparr>)
                  = Inr True
              \<and> py_or (msg_frame message) (msg_data message) = Some payload
              \<and> decode_frame env payload = Inr (Some frm)
              \<and> process_frame (pipeline_env.truncate env) (camera srv) (Some frm)
                    (current_hand_detection_confidence srv) = (cm, r)
            \<longrightarrow> frame_stream_step env srv conn (Object message)
                = (srv\<lparr>camera := cm\<rparr>,
                   conn\<lparr>frame_skip_counter := frame_skip_counter conn + 1\<rparr>,
                   [FrameReceived,
                    DetectionMsg (case r of Inl e \<Rightarrow> None | Inr detection \<Rightarrow> detection)
                      (clock_send env) None]))"
proof -
  let ?conn1 = "conn\<lparr>frame_skip_counter := frame_skip_counter conn + 1\<rparr>"
  let ?fd = "py_or (msg_frame message) (msg_data message)"
  let ?none = "[FrameReceived, DetectionMsg None (clock_send env) None]"
  from assms(2) obtain sp where sp: "should_process ?conn1 = Inr sp"
    using should_process_total [of ?conn1] by auto
  have step: "frame_stream_step env srv conn (Object message) = handle_frame env srv conn message"
    using assms(1) by (simp add: frame_stream_step_def)
  have closed: "\<not> truthy ?fd \<or> \<not> tracking_enabled (camera srv)
            \<or> should_process ?conn1 = Inr False
            \<longrightarrow> handle_frame env srv conn message = (srv, ?conn1, ?none)"
  proof
    assume "\<not> truthy ?fd \<or> \<not> tracking_enabled (camera srv) \<or> should_process ?conn1 = Inr False"
    with sp have "\<not> truthy ?fd \<or> \<not> tracking_enabled (camera srv) \<or> \<not> sp" by auto
    with sp show "handle_frame env srv conn message = (srv, ?conn1, ?none)"
      by (rule handle_frame_gate_closed)
  qed
  have noimg: "\<forall>payload. ?fd = Some payload \<and> (\<forall>frm. decode_frame env payload \<noteq> Inr (Some frm))
            \<longrightarrow> handle_frame env srv conn message = (srv, ?conn1, ?none)"
    using handle_frame_no_image [OF sp] by blast
  have inf: "\<forall>payload frm cm r.
              truthy ?fd \<and> tracking_enabled (camera srv) \<and> should_process ?conn1 = Inr True
              \<and> ?fd = Some payload \<and> decode_frame env payload = Inr (Some frm)
              \<and> process_frame (pipeline_env.truncate env) (camera srv) (Some frm)
                    (current_hand_detection_confidence srv) = (cm, r)
            \<longrightarrow> handle_frame env srv conn message
                = (srv\<lparr>camera := cm\<rparr>, ?conn1,
                   [FrameReceived,
                    DetectionMsg (case r of Inl e \<Rightarrow> None | Inr detection \<Rightarrow> detection)
                      (clock_send env) None])"
    using handle_frame_inference by blast
  have ex: "\<exists>d. snd (snd (handle_frame env srv conn message))
              = [FrameReceived, DetectionMsg d (clock_send env) None]"
    unfolding handle_frame_def Let_def sp
    by (auto simp: truthy_def py_or_def split: sum.splits option.splits prod.splits if_splits)
  have old: "(\<forall>payload. ?fd = Some payload
              \<longrightarrow> (\<forall>frm. decode_frame env payload \<noteq> Inr (Some frm)))
            \<longrightarrow> snd (snd (handle_frame env srv conn message)) = ?none"
    unfolding handle_frame_def Let_def sp
    by (auto simp: truthy_def py_or_def split: sum.splits option.splits prod.splits if_splits)
  show ?thesis unfolding step using ex old closed noimg inf by (intro conjI)
qed


lemma detecting_env_process_frame:
  "process_frame (pipeline_env.truncate detecting_env) (camera (initial_server True 0))
       (Some \<lparr>fheight = 480, fwidth = 640\<rparr>) (current_hand_detection_confidence (initial_server True 0))
   = ((initial_manager True 0)
        \<lparr>frame_count := 1,
         current_detections := [\<lparr>det_x = 320, det_y = 240, det_width = 64, det_height = 48,
                                  det_confidence = 0.9, det_class = ''hand''\<rparr>],
         detection_count := 1, detection_times := [0]\<rparr>,
      Inr (Some \<lparr>det_x = 320, det_y = 240, det_width = 64, det_height = 48,
                  det_confidence = 0.9, det_class = ''hand''\<rparr>))"
  by (simp add: process_frame_def process_results_def performance_logging_def deque_append_def
        detecting_env_def initial_server_def initial_manager_def pipeline_env.truncate_def Let_def)

theorem frame_always_answered_witness:
  "msg_type (frame_message ''ok'') = Some ''frame''
   \<and> process_every_nth_frame initial_frames_conn \<noteq> 0 \<and> float_0_2 \<noteq> 0
   \<and> snd (snd (frame_stream_step failing_env (initial_server True 0) initial_frames_conn
                  (Object (frame_message ''!''))))
       = [FrameReceived, DetectionMsg None 0 None]
   \<and> snd (snd (frame_stream_step detecting_env (initial_server True 0) initial_frames_conn
                  (Object (frame_message ''ok''))))
       = [FrameReceived,
          DetectionMsg (Some \<lparr>det_x = 320, det_y = 240, det_width = 64, det_height = 48,
                               det_confidence = 0.9, det_class = ''hand''\<rparr>) 0 None]
   \<and> frame_stream_step detecting_env (initial_server True 0)
         \<lparr>frame_skip_counter = 0, process_every_nth_frame = float_0_2\<rparr>
         (Object (frame_message ''ok''))
       = (initial_server True 0,
          \<lparr>frame_skip_counter = 1, process_every_nth_frame = float_0_2\<rparr>,
          [FrameReceived, DetectionMsg None 0 None])"
proof -
  let ?S = "initial_server True 0"
  let ?slow = "\<lparr>frame_skip_counter = 0, process_every_nth_frame = float_0_2\<rparr>"
  have t: "msg_type (frame_message ''ok'') = Some ''frame''"
    and t': "msg_type (frame_message ''!'') = Some ''frame''"
    by (simp_all add: frame_message_def)
  have d1: "process_every_nth_frame initial_frames_conn \<noteq> 0"
    by (simp add: initial_frames_conn_def)
  have d2: "float_0_2 \<noteq> 0" by (simp add: float_0_2_def)
  have d2': "process_every_nth_frame ?slow \<noteq> 0" using d2 by simp
  have a: "snd (snd (frame_stream_step failing_env ?S initial_frames_conn
                  (Object (frame_message ''!''))))
       = [FrameReceived, DetectionMsg None 0 None]"
    using frame_always_answered [OF t' d1, of failing_env ?S]
    by (simp add: frame_message_def py_or_def decode_frame_def failing_env_def)
  have sp: "should_process (initial_frames_conn\<lparr>frame_skip_counter :=
              frame_skip_counter initial_frames_conn + 1\<rparr>) = Inr True"
    by (simp add: should_process_def py_float_mod_def initial_frames_conn_def)
  have fd: "py_or (msg_frame (frame_message ''ok'')) (msg_data (frame_message ''ok'')) = Some ''ok''"
    by (simp add: frame_message_def py_or_def)
  have dec: "decode_frame detecting_env ''ok'' = Inr (Some \<lparr>fheight = 480, fwidth = 640\<rparr>)"
    by (simp add: decode_frame_def detecting_env_def)
  have tr: "tracking_enabled (camera ?S)" by (simp add: initial_server_def initial_manager_def)
  have tf: "truthy (py_or (msg_frame (frame_message ''ok'')) (msg_data (frame_message ''ok'')))"
    by (simp add: fd truthy_def)
  note inst = frame_always_answered [OF t d1, of detecting_env ?S]
  from inst have "\<forall>payload frm cm r.
              truthy (py_or (msg_frame (frame_message ''ok'')) (msg_data (frame_message ''ok'')))
              \<and> tracking_enabled (camera ?S)
              \<and> should_process (initial_frames_conn\<lparr>frame_skip_counter :=
                    frame_skip_counter initial_frames_conn + 1\<rparr>) = Inr True
              \<and> py_or (msg_frame (frame_message ''ok'')) (msg_data (frame_message ''ok'')) = Some payload
              \<and> decode_frame detecting_env payload = Inr (Some frm)
              \<and> process_frame (pipeline_env.truncate detecting_env) (camera ?S) (Some frm)
                    (current_hand_detection_confidence ?S) = (cm, r)
            \<longrightarrow> frame_stream_step detecting_env ?S initial_frames_conn (Object (frame_message ''ok''))
                = (?S\<lparr>camera := cm\<rparr>,
                   initial_frames_conn\<lparr>frame_skip_counter :=
                     frame_skip_counter initial_frames_conn + 1\<rparr>,
                   [FrameReceived,
                    DetectionMsg (case r of Inl e \<Rightarrow> None | Inr detection \<Rightarrow> detection)
                      (clock_send detecting_env) None])"
    by (elim conjE)
  from this [rule_format, OF conjI [OF tf conjI [OF tr conjI [OF sp conjI [OF fd conjI [OF dec detecting_env_process_frame]]]]]]
  have b: "snd (snd (frame_stream_step detecting_env ?S initial_frames_conn
                  (Object (frame_message ''ok''))))
       = [FrameReceived,
          DetectionMsg (Some \<lparr>det_x = 320, det_y = 240, det_width = 64, det_height = 48,
                               det_confidence = 0.9, det_class = ''hand''\<rparr>) 0 None]"
    by (simp add: detecting_env_def)
  have skip: "should_process (?slow\<lparr>frame_skip_counter := frame_skip_counter ?slow + 1\<rparr>)
      = Inr False"
    using forced_divisor_skips [of 1] by simp
  note inst2 = frame_always_answered [OF t d2', of detecting_env ?S]
  from inst2 have "\<not> truthy (py_or (msg_frame (frame_message ''ok'')) (msg_data (frame_message ''ok'')))
            \<or> \<not> tracking_enabled (camera ?S)
            \<or> should_process (?slow\<lparr>frame_skip_counter := frame_skip_counter ?slow + 1\<rparr>)
                = Inr False
            \<longrightarrow> frame_stream_step detecting_env ?S ?slow (Object (frame_message ''ok''))
                = (?S, ?slow\<lparr>frame_skip_counter := frame_skip_counter ?slow + 1\<rparr>,
                   [FrameReceived, DetectionMsg None (clock_send detecting_env) None])"
    by (elim conjE)
  with skip have c: "frame_stream_step detecting_env ?S ?slow (Object (frame_message ''ok''))
       = (?S, \<lparr>frame_skip_counter = 1, process_every_nth_frame = float_0_2\<rparr>,
          [FrameReceived, DetectionMsg None 0 None])"
    by (simp add: detecting_env_def)
  from t d1 d2 a b c show ?thesis by (intro conjI)
qed

text \<open>
  On the command endpoint a message of an unrecognized kind is answered by an error
  acknowledgment that names the kind.
\<close>

lemma websocket_unknown_kind:
  assumes "py_or (ws_message_type message) (ws_type message) = Some kind"
    and "kind \<notin> set known_ws_kinds"
  shows "websocket_step now srv message
         = (srv, [StatusMsg ''error'' (''Unknown message type: '' @ kind)])"
  using assms by (simp add: websocket_step_def known_ws_kinds_def)

lemma websocket_unknown_kind_example:
  "websocket_step 0 (initial_server True 0)
      \<lparr>ws_message_type = None, ws_type = Some ''calibrate'', ws_trajectory = [],
       ws_confidence_threshold = None, ws_templates = []\<rparr>
    = (initial_server True 0, [StatusMsg ''error'' ''Unknown message type: calibrate''])"
  by (simp add: websocket_step_def py_or_def)

text \<open>
  C8, on the frame streaming endpoint: a message of an unrecognized kind is answered by
  nothing at all (the branch only logs a warning), where the command endpoint sends the
  error acknowledgment.
\<close>

theorem frame_stream_unknown_kind_silent:
  "frame_stream_step failing_env (initial_server True 0) initial_frames_conn
      (Object (typed_message ''calibrate''))
    = (initial_server True 0, initial_frames_conn, [])"
  by (simp add: frame_stream_step_def typed_message_def)

subsection \<open>The gesture recognizer\<close>

text \<open>
  C9. Resampling to the current length returns the trajectory itself, and so does
  resampling a trajectory of at most one point, or to a target count of at most 1.
\<close>

theorem resample_short_circuit:
  "resample_trajectory t (int (length t)) = t
   \<and> (length t \<le> 1 \<longrightarrow> resample_trajectory t k = t)
   \<and> (k \<le> 1 \<longrightarrow> resample_trajectory t k = t)"
  by (simp add: resample_trajectory_def)

theorem resample_short_circuit_witness:
  "resample_trajectory [(0, 0), (1, 0), (5, 5)] 3 = [(0, 0), (1, 0), (5, 5)]
   \<and> length [(0::real, 0::real)] \<le> 1 \<and> resample_trajectory [(0, 0)] 0 = [(0, 0)]
   \<and> (0::int) \<le> 1"
  using resample_short_circuit [of "[(0, 0), (1, 0), (5, 5)]" 3]
    resample_short_circuit [of "[(0, 0)]" 0]
  by simp

lemma cum_length_0: "cum_length t 0 = 0"
  by (simp add: cum_length_def)

lemma cum_length_Suc:
  "cum_length t (Suc j) = cum_length t j + seg_len (t ! j) (t ! Suc j)"
  by (simp add: cum_length_def)

lemma path_length_cum: "t \<noteq> [] \<Longrightarrow> path_length t = cum_length t (length t - 1)"
  by (simp add: path_length_def cum_length_def)

lemma seg_len_nonneg: "0 \<le> seg_len p q"
  by (simp add: seg_len_def Let_def)

lemma walk_unfold:
  "walk t target cur idx =
     (if cur < target \<and> idx < length t - 1 then
        (if cur + seg_len (t ! idx) (t ! Suc idx) \<ge> target then
           (if seg_len (t ! idx) (t ! Suc idx) > 0
            then (Some (lerp (t ! idx) (t ! Suc idx)
                          ((target - cur) / seg_len (t ! idx) (t ! Suc idx))), cur, idx)
            else (Some (t ! idx), cur, idx))
         else walk t target (cur + seg_len (t ! idx) (t ! Suc idx)) (Suc idx))
      else (None, cur, idx))"
  by (subst walk.simps) (simp add: seg_len_def lerp_def Let_def)

lemma walk_finds:
  assumes "idx < length t" and "cur = cum_length t idx" and "cur < target"
    and "target \<le> cum_length t (length t - 1)"
  shows "\<exists>j. walk t target cur idx =
            (Some (lerp (t ! j) (t ! Suc j)
                     ((target - cum_length t j) / seg_len (t ! j) (t ! Suc j))),
             cum_length t j, j)
          \<and> j < length t - 1 \<and> cum_length t j < target \<and> target \<le> cum_length t (Suc j)"
  using assms
proof (induction "length t - idx" arbitrary: idx cur)
  case 0
  then show ?case by simp
next
  case (Suc n)
  have inner: "idx < length t - 1"
  proof (rule ccontr)
    assume "\<not> idx < length t - 1"
    with Suc.prems(1) have "idx = length t - 1" by simp
    with Suc.prems(2,3,4) show False by simp
  qed
  let ?seg = "seg_len (t ! idx) (t ! Suc idx)"
  show ?case
  proof (cases "cur + ?seg \<ge> target")
    case True
    with Suc.prems(3) have pos: "?seg > 0" by simp
    have "walk t target cur idx =
        (Some (lerp (t ! idx) (t ! Suc idx) ((target - cur) / ?seg)), cur, idx)"
      using True pos inner Suc.prems(3) by (subst walk_unfold) simp
    moreover have "target \<le> cum_length t (Suc idx)"
      using True Suc.prems(2) by (simp add: cum_length_Suc)
    ultimately show ?thesis using inner Suc.prems(2,3) by (intro exI [of _ idx]) simp
  next
    case False
    have w: "walk t target cur idx = walk t target (cur + ?seg) (Suc idx)"
      using False inner Suc.prems(3) by (subst walk_unfold) simp
    have n: "n = length t - Suc idx" using Suc.hyps(2) by simp
    have "Suc idx < length t" using inner by simp
    moreover have "cur + ?seg = cum_length t (Suc idx)"
      using Suc.prems(2) by (simp add: cum_length_Suc)
    moreover have "cur + ?seg < target" using False by simp
    ultimately show ?thesis
      using Suc.hyps(1) [OF n _ _ _ Suc.prems(4)] w by simp
  qed
qed


lemma resample_loop_invariant:
  assumes "t \<noteq> []" and "0 < td" and "real n * td \<le> cum_length t (length t - 1)"
  shows "\<exists>res cur idx.
           foldl (resample_step t td) ([t ! 0], 0, 0) [1..<Suc n] = (res, cur, idx)
         \<and> length res = Suc n \<and> res ! 0 = t ! 0
         \<and> (\<forall>i. 1 \<le> i \<and> i \<le> n \<longrightarrow> placed_at t (real i * td) (res ! i))
         \<and> cur = cum_length t idx \<and> idx < length t \<and> cur < real (Suc n) * td"
  using assms(3)
proof (induction n)
  case 0
  show ?case using assms(1,2) by (simp add: cum_length_0)
next
  case (Suc n)
  let ?target = "real (Suc n) * td"
  have "real n * td \<le> ?target" using assms(2) by (simp add: mult_right_mono)
  with Suc.prems have "real n * td \<le> cum_length t (length t - 1)" by linarith
  from Suc.IH [OF this] obtain res cur idx where
    run: "foldl (resample_step t td) ([t ! 0], 0, 0) [1..<Suc n] = (res, cur, idx)"
    and len: "length res = Suc n" and first: "res ! 0 = t ! 0"
    and placed: "\<forall>i. 1 \<le> i \<and> i \<le> n \<longrightarrow> placed_at t (real i * td) (res ! i)"
    and cur: "cur = cum_length t idx" and idx: "idx < length t" and lt: "cur < ?target"
    by blast
  from walk_finds [OF idx cur lt Suc.prems] obtain j where
    w: "walk t ?target cur idx =
          (Some (lerp (t ! j) (t ! Suc j)
                   ((?target - cum_length t j) / seg_len (t ! j) (t ! Suc j))),
           cum_length t j, j)"
    and j: "j < length t - 1" and lo: "cum_length t j < ?target"
    and hi: "?target \<le> cum_length t (Suc j)"
    by blast
  let ?p = "lerp (t ! j) (t ! Suc j) ((?target - cum_length t j) / seg_len (t ! j) (t ! Suc j))"
  have step: "resample_step t td (res, cur, idx) (Suc n) = (res @ [?p], cum_length t j, j)"
    unfolding resample_step_def Let_def using w by simp
  have "[1..<Suc (Suc n)] = [1..<Suc n] @ [Suc n]" by simp
  then have run': "foldl (resample_step t td) ([t ! 0], 0, 0) [1..<Suc (Suc n)]
      = (res @ [?p], cum_length t j, j)"
    using run step by (simp only: foldl_append foldl.simps)
  have new: "placed_at t ?target ?p"
    unfolding placed_at_def using j lo hi by (intro bexI [of _ j]) simp_all
  have placed': "\<forall>i. 1 \<le> i \<and> i \<le> Suc n \<longrightarrow> placed_at t (real i * td) ((res @ [?p]) ! i)"
  proof (intro allI impI)
    fix i assume i: "1 \<le> i \<and> i \<le> Suc n"
    show "placed_at t (real i * td) ((res @ [?p]) ! i)"
    proof (cases "i = Suc n")
      case True
      then show ?thesis using new len by (simp add: nth_append)
    next
      case False
      with i have "i \<le> n" by simp
      with i placed len show ?thesis by (simp add: nth_append)
    qed
  qed
  have "cum_length t j < real (Suc (Suc n)) * td"
  proof -
    have "?target \<le> real (Suc (Suc n)) * td" using assms(2) by (simp add: mult_right_mono)
    with lo show ?thesis by linarith
  qed
  moreover have "(res @ [?p]) ! 0 = t ! 0" using first len by (simp add: nth_append)
  moreover have "length (res @ [?p]) = Suc (Suc n)" using len by simp
  moreover have "j < length t" using j by simp
  ultimately show ?case using run' placed' by blast
qed

lemma resample_trajectory_placed:
  assumes "2 \<le> length t" and "0 < path_length t" and "2 \<le> k" and "int (length t) \<noteq> k"
  shows "length (resample_trajectory t k) = nat k
       \<and> resample_trajectory t k ! 0 = t ! 0
       \<and> last (resample_trajectory t k) = last t
       \<and> (\<forall>i. 1 \<le> i \<and> i \<le> nat k - 2 \<longrightarrow>
             placed_at t (real i * (path_length t / (of_int k - 1))) (resample_trajectory t k ! i))"
proof -
  let ?td = "path_length t / (of_int k - 1)"
  let ?n = "nat k - 2"
  have ne: "t \<noteq> []" using assms(1) by auto
  have tot: "path_length t = cum_length t (length t - 1)" using ne by (rule path_length_cum)
  have kpos: "0 < (of_int k - 1 :: real)" using assms(3) by simp
  have td: "0 < ?td" using assms(2) kpos by simp
  have nk: "real ?n \<le> of_int k - 1" using assms(3) by (simp add: of_nat_diff)
  have td0: "0 \<le> ?td" using td by (rule less_imp_le)
  from nk td0 have "real ?n * ?td \<le> (of_int k - 1) * ?td" by (rule mult_right_mono)
  also have "\<dots> = path_length t" using kpos by simp
  finally have bound: "real ?n * ?td \<le> cum_length t (length t - 1)" using tot by simp
  from resample_loop_invariant [OF ne td bound] obtain res cur idx where
    run: "foldl (resample_step t ?td) ([t ! 0], 0, 0) [1..<Suc ?n] = (res, cur, idx)"
    and len: "length res = Suc ?n" and first: "res ! 0 = t ! 0"
    and placed: "\<forall>i. 1 \<le> i \<and> i \<le> ?n \<longrightarrow> placed_at t (real i * ?td) (res ! i)"
    by blast
  have range: "nat (k - 1) = Suc ?n" using assms(3) by simp
  have eq: "resample_trajectory t k = res @ [last t]"
    using assms run by (simp add: resample_trajectory_def Let_def range)
  have "length (resample_trajectory t k) = nat k" using eq len assms(3) by simp
  moreover have "resample_trajectory t k ! 0 = t ! 0" using eq first len by (simp add: nth_append)
  moreover have "last (resample_trajectory t k) = last t" using eq by simp
  moreover have "\<forall>i. 1 \<le> i \<and> i \<le> ?n \<longrightarrow>
             placed_at t (real i * ?td) (resample_trajectory t k ! i)"
    using eq placed len by (simp add: nth_append)
  ultimately show ?thesis by blast
qed


lemma resample_trajectory_length:
  assumes "2 \<le> length t" and "0 < path_length t" and "2 \<le> k"
  shows "length (resample_trajectory t k) = nat k"
proof (cases "int (length t) = k")
  case True
  then show ?thesis by (auto simp: resample_trajectory_def)
next
  case False
  from resample_trajectory_placed [OF assms False] show ?thesis by (rule conjunct1)
qed

text \<open>
  C1, as the code has it. For a trajectory of at least two points and positive path length
  and a target count \<open>k \<ge> 2\<close> different from the number of points, the result has exactly
  \<open>k\<close> points, begins with the first and ends with the last point of the trajectory, and
  its interior point \<open>i\<close> lies at arc length \<open>i * total_length / (k - 1)\<close> along the
  polyline, interpolated linearly within the segment containing it.
\<close>

theorem resample_equal_arc_length:
  assumes "2 \<le> length t" and "0 < path_length t" and "2 \<le> k" and "int (length t) \<noteq> k"
  shows "length (resample_trajectory t k) = nat k
       \<and> resample_trajectory t k ! 0 = t ! 0
       \<and> last (resample_trajectory t k) = last t
       \<and> (\<forall>i. 1 \<le> i \<and> i \<le> nat k - 2 \<longrightarrow>
             placed_at t (real i * (path_length t / (of_int k - 1))) (resample_trajectory t k ! i))"
  using assms by (rule resample_trajectory_placed)

lemma seg_len_horizontal: "seg_len (a, c) (b, c) = \<bar>b - a\<bar>"
  by (simp add: seg_len_def Let_def)

lemma path_length_2: "path_length [p, q] = seg_len p q"
  by (simp add: path_length_def)

lemma path_length_3: "path_length [p, q, r] = seg_len p q + seg_len q r"
  by (simp add: path_length_def upt_rec)

lemma resample_example:
  "resample_trajectory [(0, 0), (4, 0)] 3 = [(0, 0), (2, 0), (4, 0)]"
  by (simp add: resample_trajectory_def path_length_2 seg_len_horizontal resample_step_def
        walk_unfold lerp_def Let_def numeral_2_eq_2)

theorem resample_equal_arc_length_witness:
  "2 \<le> length [(0::real, 0::real), (4, 0)] \<and> 0 < path_length [(0, 0), (4, 0)] \<and> (2::int) \<le> 3
   \<and> int (length [(0::real, 0::real), (4, 0)]) \<noteq> 3
   \<and> length (resample_trajectory [(0, 0), (4, 0)] 3) = 3
   \<and> resample_trajectory [(0, 0), (4, 0)] 3 ! 0 = (0, 0)
   \<and> last (resample_trajectory [(0, 0), (4, 0)] 3) = (4, 0)
   \<and> placed_at [(0, 0), (4, 0)] 2 (resample_trajectory [(0, 0), (4, 0)] 3 ! 1)"
proof -
  let ?T = "[(0::real, 0::real), (4, 0)]"
  have h1: "2 \<le> length ?T" by simp
  have h2: "0 < path_length ?T" by (simp add: path_length_2 seg_len_horizontal)
  have h3: "(2::int) \<le> 3" by simp
  have h4: "int (length ?T) \<noteq> 3" by simp
  have td: "real 1 * (path_length ?T / (of_int 3 - 1)) = 2"
    by (simp add: path_length_2 seg_len_horizontal)
  note r = resample_equal_arc_length [OF h1 h2 h3 h4]
  from r have "\<forall>i. 1 \<le> i \<and> i \<le> nat 3 - 2 \<longrightarrow>
      placed_at ?T (real i * (path_length ?T / (of_int 3 - 1))) (resample_trajectory ?T 3 ! i)"
    by (elim conjE)
  then have "1 \<le> (1::nat) \<and> (1::nat) \<le> nat 3 - 2 \<longrightarrow>
      placed_at ?T (real 1 * (path_length ?T / (of_int 3 - 1))) (resample_trajectory ?T 3 ! 1)"
    by (rule spec)
  then have "placed_at ?T (real 1 * (path_length ?T / (of_int 3 - 1)))
      (resample_trajectory ?T 3 ! 1)" by simp
  then have p: "placed_at ?T 2 (resample_trajectory ?T 3 ! 1)" by (simp only: td)
  from r have "length (resample_trajectory ?T 3) = 3"
    and "resample_trajectory ?T 3 ! 0 = (0, 0)"
    and "last (resample_trajectory ?T 3) = (4, 0)" by simp_all
  with h1 h2 h3 h4 p show ?thesis by (intro conjI)
qed

lemma cum_length_1: "cum_length t (Suc 0) = seg_len (t ! 0) (t ! Suc 0)"
  by (simp add: cum_length_Suc cum_length_0)

lemma cum_length_2:
  "cum_length t (Suc (Suc 0))
     = seg_len (t ! 0) (t ! Suc 0) + seg_len (t ! Suc 0) (t ! Suc (Suc 0))"
  by (simp add: cum_length_Suc cum_length_0)

text \<open>
  C1 as stated fails when the target count equals the number of points: the trajectory is
  returned as it is, and its interior point is not at half the path length.
\<close>

theorem resample_equal_length_counterexample:
  "2 \<le> length [(0::real, 0::real), (1, 0), (4, 0)]
   \<and> 0 < path_length [(0, 0), (1, 0), (4, 0)] \<and> (2::int) \<le> 3
   \<and> resample_trajectory [(0, 0), (1, 0), (4, 0)] 3 = [(0, 0), (1, 0), (4, 0)]
   \<and> \<not> placed_at [(0, 0), (1, 0), (4, 0)]
          (real 1 * (path_length [(0, 0), (1, 0), (4, 0)] / (of_int 3 - 1)))
          (resample_trajectory [(0, 0), (1, 0), (4, 0)] 3 ! 1)"
proof -
  let ?T = "[(0::real, 0::real), (1, 0), (4, 0)]"
  have pl: "path_length ?T = 4" by (simp add: path_length_3 seg_len_horizontal)
  have rs: "resample_trajectory ?T 3 = ?T" by (simp add: resample_trajectory_def)
  have c0: "cum_length ?T 0 = 0" by (rule cum_length_0)
  have c1: "cum_length ?T (Suc 0) = 1" by (simp add: cum_length_1 seg_len_horizontal)
  have c2: "cum_length ?T (Suc (Suc 0)) = 4" by (simp add: cum_length_2 seg_len_horizontal)
  have two: "{..<length ?T - 1} = {0, Suc 0}" by auto
  have "\<not> placed_at ?T 2 (1, 0)"
    unfolding placed_at_def two by (simp add: c0 c1 c2 lerp_def seg_len_horizontal)
  then show ?thesis by (simp add: pl rs)
qed

lemma normalize_points_axes:
  "normalize_points points =
     map (\<lambda>p. (axis_scale (map fst points) (fst p), axis_scale (map snd points) (snd p))) points"
  by (simp add: normalize_points_def axis_scale_def Let_def case_prod_unfold)




lemma to_points_length: "length (to_points trajectory) \<le> length trajectory"
  by (induction trajectory rule: to_points.induct) auto







lemma normalize_trajectory_points:
  "2 \<le> length (to_points trajectory) \<Longrightarrow>
     normalize_trajectory trajectory = Points (normalize_points (to_points trajectory))"
  using to_points_length [of trajectory] by (simp add: normalize_trajectory_def)



lemma ex_traj_points:
  "to_points [SeqPoint [2, 5], SeqPoint [4, 5]] = [(2, 5), (4, 5)]"
  by simp


lemma point_dist:
  "sqrt ((fst p - fst q) * (fst p - fst q) + (snd p - snd q) * (snd p - snd q)) = euclidean_distance p q"
  by (simp add: euclidean_distance_def power2_eq_square)

lemma sum_distances_total:
  assumes "\<forall>i\<in>set ixs. i < length r2"
  shows "sum_distances r1 r2 ixs acc = Inr (acc + (\<Sum>i\<leftarrow>ixs. euclidean_distance (r1 ! i) (r2 ! i)))"
  using assms
proof (induction ixs arbitrary: acc)
  case Nil
  then show ?case by simp
next
  case (Cons i ixs)
  then show ?case by (simp add: Let_def point_dist add.assoc)
qed

lemma sum_distances_upt:
  assumes "n \<le> length r2"
  shows "sum_distances r1 r2 [0..<n] 0 = Inr (\<Sum>i<n. euclidean_distance (r1 ! i) (r2 ! i))"
proof -
  have "\<forall>i\<in>set [0..<n]. i < length r2" using assms by auto
  from sum_distances_total [OF this, of r1 0]
  show ?thesis by (simp add: interv_sum_list_conv_sum_set_nat atLeast0LessThan)
qed

text \<open>
  C3, as the code has it. For two trajectories of at least two points and positive path
  length, \<open>calculate_similarity\<close> raises nothing and returns the similarity of the
  specification with the divisor 1.414, the constant the code uses for \<open>sqrt(2)\<close>.
\<close>

theorem similarity_mean_distance:
  assumes "2 \<le> length t1" and "2 \<le> length t2"
    and "0 < path_length t1" and "0 < path_length t2"
  shows "calculate_similarity t1 t2 = Inr (spec_similarity 1.414 t1 t2)"
proof -
  let ?count = "min 50 (max (int (length t1)) (int (length t2)))"
  have c2: "2 \<le> ?count" using assms(1) by simp
  have l1: "length (resample_trajectory t1 ?count) = nat ?count"
    using assms(1,3) c2 by (rule resample_trajectory_length)
  have l2: "length (resample_trajectory t2 ?count) = nat ?count"
    using assms(2,4) c2 by (rule resample_trajectory_length)
  have pos: "nat ?count \<noteq> 0" using c2 by simp
  have ne: "t1 \<noteq> []" "t2 \<noteq> []" using assms(1,2) by auto
  have sd: "sum_distances (resample_trajectory t1 ?count) (resample_trajectory t2 ?count)
              [0..<nat ?count] 0
            = Inr (\<Sum>i<nat ?count. euclidean_distance (resample_trajectory t1 ?count ! i)
                                       (resample_trajectory t2 ?count ! i))"
    using l2 by (intro sum_distances_upt) simp
  show ?thesis
    unfolding calculate_similarity_def spec_similarity_def Let_def l1
    using ne pos by (simp only: sd if_False sum.case simp_thms) 
qed


lemma sqrt2_not_1414: "sqrt 2 \<noteq> 1.414"
proof
  assume a: "sqrt 2 = 1.414"
  have "(sqrt 2)\<^sup>2 = 2" by simp
  then have "(1.414::real)\<^sup>2 = 2" unfolding a .
  then show False by (simp add: power2_eq_square)
qed

lemma similarity_diagonals:
  "calculate_similarity [(0, 0), (1, 1)] [(1, 0), (0, 1)] = Inr (207 / 707)"
  by (simp add: calculate_similarity_def resample_trajectory_def Let_def numeral_2_eq_2)

lemma spec_similarity_diagonals:
  "spec_similarity d [(0, 0), (1, 1)] [(1, 0), (0, 1)] = max 0 (1 - 1 / d)"
  by (simp add: spec_similarity_def resample_trajectory_def Let_def numeral_2_eq_2
        euclidean_distance_def)

theorem similarity_mean_distance_witness:
  "2 \<le> length [(0::real, 0::real), (1, 1)] \<and> 2 \<le> length [(1::real, 0::real), (0, 1)]
   \<and> 0 < path_length [(0, 0), (1, 1)] \<and> 0 < path_length [(1, 0), (0, 1)]
   \<and> calculate_similarity [(0, 0), (1, 1)] [(1, 0), (0, 1)]
       = Inr (spec_similarity 1.414 [(0, 0), (1, 1)] [(1, 0), (0, 1)])
   \<and> spec_similarity 1.414 [(0, 0), (1, 1)] [(1, 0), (0, 1)] = 207 / 707"
proof -
  have h1: "2 \<le> length [(0::real, 0::real), (1, 1)]" by simp
  have h2: "2 \<le> length [(1::real, 0::real), (0, 1)]" by simp
  have h3: "0 < path_length [(0, 0), (1, 1)]" by (simp add: path_length_2 seg_len_def)
  have h4: "0 < path_length [(1, 0), (0, 1)]" by (simp add: path_length_2 seg_len_def)
  have v: "spec_similarity 1.414 [(0, 0), (1, 1)] [(1, 0), (0, 1)] = 207 / 707"
    by (simp add: spec_similarity_diagonals)
  from similarity_mean_distance [OF h1 h2 h3 h4] h1 h2 h3 h4 v show ?thesis by (intro conjI)
qed

text \<open>
  C3 as stated fails: for the two diagonals of the unit square, both results of the
  normalizer, the similarity is not the one computed with the divisor \<open>sqrt 2\<close>.
\<close>

theorem similarity_divisor_counterexample:
  "normalize_trajectory [SeqPoint [0, 0], SeqPoint [5, 5]] = Points [(0, 0), (1, 1)]
   \<and> normalize_trajectory [SeqPoint [3, 0], SeqPoint [0, 3]] = Points [(1, 0), (0, 1)]
   \<and> calculate_similarity [(0, 0), (1, 1)] [(1, 0), (0, 1)]
       \<noteq> Inr (spec_similarity (sqrt 2) [(0, 0), (1, 1)] [(1, 0), (0, 1)])"
proof -
  have n1: "normalize_trajectory [SeqPoint [0, 0], SeqPoint [5, 5]] = Points [(0, 0), (1, 1)]"
    by (simp add: normalize_trajectory_def normalize_points_def)
  have n2: "normalize_trajectory [SeqPoint [3, 0], SeqPoint [0, 3]] = Points [(1, 0), (0, 1)]"
    by (simp add: normalize_trajectory_def normalize_points_def)
  have "(207 / 707 :: real) \<noteq> max 0 (1 - 1 / sqrt 2)"
  proof
    assume eq: "(207 / 707 :: real) = max 0 (1 - 1 / sqrt 2)"
    have "(1::real) < sqrt 2" by simp
    then have "0 < 1 - 1 / sqrt 2" by simp
    with eq have "1 / sqrt 2 = (500 / 707 :: real)" by simp
    then have "sqrt 2 = 707 / 500" by (simp add: field_simps)
    then have "sqrt 2 = 1.414" by simp
    with sqrt2_not_1414 show False by simp
  qed
  then have "calculate_similarity [(0, 0), (1, 1)] [(1, 0), (0, 1)]
       \<noteq> Inr (spec_similarity (sqrt 2) [(0, 0), (1, 1)] [(1, 0), (0, 1)])"
    by (simp add: similarity_diagonals spec_similarity_diagonals)
  with n1 n2 show ?thesis by (intro conjI)
qed

lemma match_loop_result:
  assumes "list_all2 (\<lambda>item s. template_similarity inp (snd item) = Inr s) ts sims"
  shows "if \<exists>s\<in>set sims. bs < s \<and> thr \<le> s
         then \<exists>pre item s post.
                zip ts sims = pre @ (item, s) # post
              \<and> (\<forall>y\<in>set pre. snd y < s) \<and> (\<forall>y\<in>set post. snd y \<le> s)
              \<and> bs < s \<and> thr \<le> s
              \<and> match_loop inp thr ts bm bs = Inr (Some (match_of item s))
         else match_loop inp thr ts bm bs = Inr bm"
  using assms
proof (induction ts sims arbitrary: bm bs rule: list_all2_induct)
  case Nil
  show ?case by simp
next
  case (Cons item ts s sims)
  obtain template_id tpl where item: "item = (template_id, tpl)" by (cases item)
  have sim: "template_similarity inp tpl = Inr s" using Cons.hyps(1) item by simp
  show ?case
  proof (cases "bs < s \<and> thr \<le> s")
    case True
    have step: "match_loop inp thr (item # ts) bm bs
        = match_loop inp thr ts (Some (match_of item s)) s"
      using True sim item by (simp add: match_of_def)
    show ?thesis
    proof (cases "\<exists>s'\<in>set sims. s < s' \<and> thr \<le> s'")
      case later: True
      with Cons.IH [of s "Some (match_of item s)"]
      obtain pre item' s' post where
        z: "zip ts sims = pre @ (item', s') # post"
        and p1: "\<forall>y\<in>set pre. snd y < s'" and p2: "\<forall>y\<in>set post. snd y \<le> s'"
        and gt: "s < s'" and th: "thr \<le> s'"
        and r: "match_loop inp thr ts (Some (match_of item s)) s = Inr (Some (match_of item' s'))"
        by auto
      have "zip (item # ts) (s # sims) = ((item, s) # pre) @ (item', s') # post"
        using z by simp
      moreover have "\<forall>y\<in>set ((item, s) # pre). snd y < s'" using p1 gt by simp
      moreover have "bs < s'" using True gt by linarith
      moreover have "\<exists>x\<in>set (s # sims). bs < x \<and> thr \<le> x" using True by simp
      ultimately show ?thesis using p2 th r step by (simp only: if_True) blast
    next
      case none: False
      with Cons.IH [of s "Some (match_of item s)"]
      have r: "match_loop inp thr ts (Some (match_of item s)) s = Inr (Some (match_of item s))"
        by simp
      have le: "\<forall>y\<in>set (zip ts sims). snd y \<le> s"
      proof
        fix y assume y: "y \<in> set (zip ts sims)"
        obtain a b where ab: "y = (a, b)" by (cases y)
        with y have "(a, b) \<in> set (zip ts sims)" by simp
        then have "b \<in> set sims" by (rule set_zip_rightD)
        with ab have "snd y \<in> set sims" by simp
        with none have "\<not> (s < snd y \<and> thr \<le> snd y)" by blast
        with True show "snd y \<le> s" by linarith
      qed
      have "zip (item # ts) (s # sims) = [] @ (item, s) # zip ts sims" by simp
      moreover have "\<forall>y\<in>set ([] :: ((string \<times> template) \<times> real) list). snd y < s" by simp
      moreover have "\<exists>x\<in>set (s # sims). bs < x \<and> thr \<le> x" using True by simp
      ultimately show ?thesis using le True r step by (simp only: if_True) blast
    qed
  next
    case False
    have step: "match_loop inp thr (item # ts) bm bs = match_loop inp thr ts bm bs"
      using False sim item by auto
    show ?thesis
    proof (cases "\<exists>s'\<in>set sims. bs < s' \<and> thr \<le> s'")
      case later: True
      with Cons.IH [of bs bm]
      obtain pre item' s' post where
        z: "zip ts sims = pre @ (item', s') # post"
        and p1: "\<forall>y\<in>set pre. snd y < s'" and p2: "\<forall>y\<in>set post. snd y \<le> s'"
        and gt: "bs < s'" and th: "thr \<le> s'"
        and r: "match_loop inp thr ts bm bs = Inr (Some (match_of item' s'))"
        by auto
      have "s < s'" using False gt th by linarith
      with p1 have "\<forall>y\<in>set ((item, s) # pre). snd y < s'" by simp
      moreover have "zip (item # ts) (s # sims) = ((item, s) # pre) @ (item', s') # post"
        using z by simp
      moreover have "\<exists>x\<in>set (s # sims). bs < x \<and> thr \<le> x" using later by simp
      ultimately show ?thesis using p2 gt th r step by (simp only: if_True) blast
    next
      case none: False
      with Cons.IH [of bs bm] have r: "match_loop inp thr ts bm bs = Inr bm" by simp
      have "\<not> (\<exists>x\<in>set (s # sims). bs < x \<and> thr \<le> x)" using False none by simp
      then show ?thesis using r step by (simp only: if_False)
    qed
  qed
qed


lemma recognize_gesture_loop:
  assumes "2 \<le> length (to_points trajectory)" and "templates \<noteq> []"
  shows "recognize_gesture templates trajectory thr
         = match_loop (normalize_points (to_points trajectory)) thr templates None 0"
proof -
  have "2 \<le> length trajectory" using assms(1) to_points_length [of trajectory] by linarith
  moreover have "length (normalize_points (to_points trajectory)) = length (to_points trajectory)"
    by (simp add: normalize_points_axes)
  ultimately show ?thesis
    using assms normalize_trajectory_points [OF assms(1)]
    by (simp add: recognize_gesture_def normalized_length_def as_points_def)
qed

text \<open>
  C4, as the code has it. For an input of at least two points and a non-empty store whose
  similarities \<open>sims\<close> are all computed without an exception: if some similarity is
  positive and reaches the threshold, the match returned is a template of the highest
  similarity, every template before it in the store has a strictly smaller similarity
  (so the first of several tied templates wins) and none after it has a greater one;
  otherwise there is no match. A template whose similarity strictly exceeds every other
  one, is positive and reaches the threshold is returned wherever it stands in the store.
\<close>

theorem recognize_gesture_selects_best:
  assumes "2 \<le> length (to_points trajectory)" and "templates \<noteq> []"
    and "list_all2 (\<lambda>item s. template_similarity (normalize_points (to_points trajectory))
                                (snd item) = Inr s) templates sims"
  shows "(if \<exists>s\<in>set sims. 0 < s \<and> thr \<le> s
          then \<exists>pre item s post.
                 zip templates sims = pre @ (item, s) # post
               \<and> (\<forall>y\<in>set pre. snd y < s) \<and> (\<forall>y\<in>set post. snd y \<le> s)
               \<and> 0 < s \<and> thr \<le> s
               \<and> recognize_gesture templates trajectory thr = Inr (Some (match_of item s))
          else recognize_gesture templates trajectory thr = Inr None)
       \<and> (\<forall>item s. (item, s) \<in> set (zip templates sims)
                    \<and> (\<forall>y\<in>set (zip templates sims). y \<noteq> (item, s) \<longrightarrow> snd y < s)
                    \<and> 0 < s \<and> thr \<le> s
              \<longrightarrow> recognize_gesture templates trajectory thr = Inr (Some (match_of item s)))"
proof -
  let ?inp = "normalize_points (to_points trajectory)"
  note loop = recognize_gesture_loop [OF assms(1,2), of thr]
  note res = match_loop_result [OF assms(3), of 0 thr None]
  have first: "if \<exists>s\<in>set sims. 0 < s \<and> thr \<le> s
          then \<exists>pre item s post.
                 zip templates sims = pre @ (item, s) # post
               \<and> (\<forall>y\<in>set pre. snd y < s) \<and> (\<forall>y\<in>set post. snd y \<le> s)
               \<and> 0 < s \<and> thr \<le> s
               \<and> recognize_gesture templates trajectory thr = Inr (Some (match_of item s))
          else recognize_gesture templates trajectory thr = Inr None"
    using res unfolding loop .
  have second: "\<forall>item s. (item, s) \<in> set (zip templates sims)
                    \<and> (\<forall>y\<in>set (zip templates sims). y \<noteq> (item, s) \<longrightarrow> snd y < s)
                    \<and> 0 < s \<and> thr \<le> s
              \<longrightarrow> recognize_gesture templates trajectory thr = Inr (Some (match_of item s))"
  proof (intro allI impI)
    fix item s
    assume a: "(item, s) \<in> set (zip templates sims)
                    \<and> (\<forall>y\<in>set (zip templates sims). y \<noteq> (item, s) \<longrightarrow> snd y < s)
                    \<and> 0 < s \<and> thr \<le> s"
    then have "s \<in> set sims" by (auto dest: set_zip_rightD)
    with a have "\<exists>s\<in>set sims. 0 < s \<and> thr \<le> s" by blast
    with first obtain pre item' s' post where
      z: "zip templates sims = pre @ (item', s') # post"
      and p1: "\<forall>y\<in>set pre. snd y < s'" and p2: "\<forall>y\<in>set post. snd y \<le> s'"
      and r: "recognize_gesture templates trajectory thr = Inr (Some (match_of item' s'))"
      by auto
    have "(item', s') = (item, s)"
    proof (rule ccontr)
      assume ne: "(item', s') \<noteq> (item, s)"
      have "(item', s') \<in> set (zip templates sims)" using z by simp
      with a ne have lt: "s' < s" by fastforce
      from a z have "(item, s) \<in> set pre \<or> (item, s) = (item', s') \<or> (item, s) \<in> set post"
        by auto
      with ne p1 p2 lt show False by fastforce
    qed
    with r show "recognize_gesture templates trajectory thr = Inr (Some (match_of item s))"
      by simp
  qed
  from first second show ?thesis by (rule conjI)
qed


lemma example_templates_eq:
  "example_templates =
     [(''temp_0_anti'', \<lparr>tpl_id = ''temp_0_anti'', tpl_name = ''anti'',
                          tpl_trajectory = Points [(1, 0), (0, 1)], tpl_point_count = 2\<rparr>),
      (''temp_1_diag'', \<lparr>tpl_id = ''temp_1_diag'', tpl_name = ''diag'',
                          tpl_trajectory = Points [(0, 0), (1, 1)], tpl_point_count = 2\<rparr>)]"
  by (simp add: example_templates_def add_template_def normalize_trajectory_def
        normalize_points_def normalized_length_def)

lemma example_input: "normalize_points (to_points [SeqPoint [0, 0], SeqPoint [5, 5]]) = [(0, 0), (1, 1)]"
  by (simp add: normalize_points_def)

lemma example_input_points: "normalize_points [(0, 0), (5, 5)] = [(0, 0), (1, 1)]"
  by (simp add: normalize_points_def)

lemma similarity_same:
  "calculate_similarity [(0, 0), (1, 1)] [(0, 0), (1, 1)] = Inr 1"
  by (simp add: calculate_similarity_def resample_trajectory_def Let_def numeral_2_eq_2)

theorem recognize_gesture_selects_best_witness:
  "2 \<le> length (to_points [SeqPoint [0, 0], SeqPoint [5, 5]]) \<and> example_templates \<noteq> []
   \<and> list_all2 (\<lambda>item s. template_similarity
                    (normalize_points (to_points [SeqPoint [0, 0], SeqPoint [5, 5]]))
                    (snd item) = Inr s) example_templates [207 / 707, 1]
   \<and> recognize_gesture example_templates [SeqPoint [0, 0], SeqPoint [5, 5]] 0.85
       = Inr (Some \<lparr>match_template_id = ''temp_1_diag'', match_name = ''diag'',
                     match_similarity = 1, match_confidence = 1\<rparr>)"
proof -
  let ?traj = "[SeqPoint [0, 0], SeqPoint [5, 5]]"
  let ?diag = "(''temp_1_diag'', \<lparr>tpl_id = ''temp_1_diag'', tpl_name = ''diag'',
                          tpl_trajectory = Points [(0, 0), (1, 1)], tpl_point_count = 2\<rparr>)"
  have h1: "2 \<le> length (to_points ?traj)" by simp
  have h2: "example_templates \<noteq> []" by (simp add: example_templates_eq)
  have h3: "list_all2 (\<lambda>item s. template_similarity (normalize_points (to_points ?traj))
                    (snd item) = Inr s) example_templates [207 / 707, 1]"
    unfolding example_input example_templates_eq
    by (simp add: template_similarity_def as_points_def similarity_diagonals similarity_same)
  have z: "zip example_templates [207 / 707, 1 :: real]
      = [((''temp_0_anti'', \<lparr>tpl_id = ''temp_0_anti'', tpl_name = ''anti'',
                          tpl_trajectory = Points [(1, 0), (0, 1)], tpl_point_count = 2\<rparr>), 207 / 707),
         (?diag, 1)]"
    by (simp add: example_templates_eq)
  have best: "(?diag, 1) \<in> set (zip example_templates [207 / 707, 1 :: real])
       \<and> (\<forall>y\<in>set (zip example_templates [207 / 707, 1 :: real]). y \<noteq> (?diag, 1) \<longrightarrow> snd y < 1)
       \<and> (0::real) < 1 \<and> (0.85::real) \<le> 1"
    unfolding z by simp
  from recognize_gesture_selects_best [OF h1 h2 h3, of "0.85", THEN conjunct2, rule_format, OF best]
  have "recognize_gesture example_templates ?traj 0.85 = Inr (Some (match_of ?diag 1))" .
  then have r: "recognize_gesture example_templates ?traj 0.85
       = Inr (Some \<lparr>match_template_id = ''temp_1_diag'', match_name = ''diag'',
                     match_similarity = 1, match_confidence = 1\<rparr>)"
    by (simp add: match_of_def)
  from h1 h2 h3 r show ?thesis by (intro conjI)
qed

lemma sqrt2_gt_1414: "1.414 < sqrt 2"
  by (rule real_less_rsqrt) (simp add: power2_eq_square)

lemma similarity_backwards:
  "calculate_similarity [(0, 0), (1, 1)] [(1, 1), (0, 0)] = Inr 0"
proof -
  have "sqrt 2 / 1.414 > 1" using sqrt2_gt_1414 by simp
  then have "max 0 (1 - sqrt 2 / 1.414) = 0" by simp
  moreover have "calculate_similarity [(0, 0), (1, 1)] [(1, 1), (0, 0)]
      = Inr (max 0 (1 - sqrt 2 / 1.414))"
    by (simp add: calculate_similarity_def resample_trajectory_def Let_def numeral_2_eq_2)
  ultimately show ?thesis by simp
qed

lemma backwards_templates_eq:
  "backwards_templates =
     [(''temp_0_back'', \<lparr>tpl_id = ''temp_0_back'', tpl_name = ''back'',
                          tpl_trajectory = Points [(1, 1), (0, 0)], tpl_point_count = 2\<rparr>)]"
  by (simp add: backwards_templates_def add_template_def normalize_trajectory_def
        normalize_points_def normalized_length_def)

text \<open>
  C4 as stated fails at the threshold 0: the only template has similarity 0, which meets
  the threshold, and yet no match is returned, because a match must beat the initial
  best similarity 0.0 strictly.
\<close>

theorem recognize_gesture_zero_counterexample:
  "template_similarity (normalize_points (to_points [SeqPoint [0, 0], SeqPoint [5, 5]]))
       (snd (hd backwards_templates)) = Inr 0
   \<and> (0::real) \<le> 0
   \<and> recognize_gesture backwards_templates [SeqPoint [0, 0], SeqPoint [5, 5]] 0 = Inr None"
proof -
  have ts: "template_similarity [(0, 0), (1, 1)] (snd (hd backwards_templates)) = Inr 0"
    by (simp add: backwards_templates_eq template_similarity_def as_points_def
          similarity_backwards)
  have "recognize_gesture backwards_templates [SeqPoint [0, 0], SeqPoint [5, 5]] 0
      = match_loop [(0, 0), (1, 1)] 0 backwards_templates None 0"
    using recognize_gesture_loop [of "[SeqPoint [0, 0], SeqPoint [5, 5]]" backwards_templates 0]
    by (simp add: example_input_points backwards_templates_eq)
  also have "\<dots> = Inr None"
    using ts by (simp add: backwards_templates_eq)
  finally show ?thesis using ts by (simp add: example_input_points)
qed

end
